theory Spec2Isabelle
  imports Complex_Main "HOL-Library.Word"
begin

section \<open>The audio visualizer of \<^verbatim>\<open>src/script.js\<close>\<close>

text \<open>
  The class \<^verbatim>\<open>AudioVisualizer\<close> is embedded function by function. JavaScript numbers
  are modelled as exact reals: the rounding of IEEE doubles, and of the
  \<^verbatim>\<open>Float32Array\<close> buffers on every store, is not part of the model. The elements of a
  \<^verbatim>\<open>Uint8Array\<close> are 8-bit words. \<^verbatim>\<open>Date.now()\<close>, \<^verbatim>\<open>Math.random()\<close> and the
  analyser's samples are inputs of the functions that read them.
\<close>

type_synonym byte = "8 word"

definition byte_val :: "byte \<Rightarrow> real" where
  "byte_val b = real (unat b)"

subsection \<open>Data\<close>

text \<open>A raindrop object as \<^verbatim>\<open>createRaindrop\<close> builds it.\<close>

record raindrop =
  drop_x :: real
  drop_y :: real
  drop_width :: real
  drop_height :: real
  drop_speed :: real
  drop_alpha :: real
  drop_value :: real

text \<open>An entry \<^verbatim>\<open>{ x, y, size }\<close> of \<^verbatim>\<open>starPositions\<close>.\<close>

record star =
  star_x :: real
  star_y :: real
  star_size :: real

text \<open>
  \<^verbatim>\<open>lastCanvasSize\<close> holds two kinds of value: \<^verbatim>\<open>setupCanvas\<close> stores an object
  \<^verbatim>\<open>{ width, height }\<close>, \<^verbatim>\<open>drawStarlight\<close> stores the string
  \<^verbatim>\<open>`${width}x${height}`\<close>. The string of two canvas dimensions is represented by the
  two dimensions, which it determines.
\<close>

datatype canvas_size = SizeObject nat nat | SizeString nat nat

text \<open>
  \<^verbatim>\<open>a !== b\<close> where \<open>b\<close> is a string: a value that is not a string is never strictly equal
  to a string, two strings are compared by content, and \<^verbatim>\<open>undefined\<close> differs from both.
\<close>

fun strict_neq_string :: "canvas_size option \<Rightarrow> nat \<times> nat \<Rightarrow> bool" where
  "strict_neq_string None current = True"
| "strict_neq_string (Some (SizeObject w h)) current = True"
| "strict_neq_string (Some (SizeString w h)) current = ((w, h) \<noteq> current)"

text \<open>
  What the canvas shows is the list of painting operations since it was last cleared.
  A paint is an \<^verbatim>\<open>hsl\<close>/\<^verbatim>\<open>hsla\<close> colour, another CSS colour string, or the linear
  gradient of the retro equalizer. A fill carries the \<^verbatim>\<open>shadowBlur\<close> in force, a stroke
  the \<^verbatim>\<open>lineWidth\<close>. \<^verbatim>\<open>RoundedRect x y w h r\<close> is the path with rounded top corners
  that \<^verbatim>\<open>drawRoundedBarFlat\<close> and \<^verbatim>\<open>drawRaindrops\<close> trace.
\<close>

datatype paint =
    Hsla real real real real
  | Css string
  | LinearGradient real real real real "(real \<times> string) list"

datatype shape =
    RoundedRect real real real real real
  | Circle real real real
  | Polyline "(real \<times> real) list"
  | Rect real real real real

datatype draw_op =
    Fill shape paint real
  | Stroke shape paint real

text \<open>
  A \<^verbatim>\<open>MediaStreamAudioSourceNode\<close> with the ids of the tracks of its \<^verbatim>\<open>mediaStream\<close>;
  the analyser node with the two attributes the code sets.
\<close>

record media_source =
  mediaStream :: "nat list"

record analyser_node =
  fftSize :: nat
  smoothingTimeConstant :: real

text \<open>
  The fields of \<^verbatim>\<open>AudioVisualizer\<close>, followed by what the browser holds for it: the canvas
  and its content, the media tracks that are live, the audio contexts that are open, the
  counter of animation-frame requests and the status line. The canvas element and its 2d
  context are taken to exist, so the guards \<^verbatim>\<open>!this.canvas || !this.ctx\<close> are never taken.
\<close>

record visualizer =
  audioContext :: "nat option"
  analyser :: "analyser_node option"
  microphone :: "media_source option"
  gainNode :: bool
  isPlaying :: bool
  animationId :: "nat option"
  screenShare :: "media_source option"
  dataArray :: "byte list"
  frequencyData :: "byte list"
  smoothedFrequencyData :: "real list"
  boostedFrequencyData :: "real list option"
  sensitivity :: real
  visualType :: string
  isFullscreen :: bool
  raindrops :: "raindrop list"
  lastRaindropTime :: real
  raindropInterval :: real
  barRaindropTimers :: "nat \<rightharpoonup> real"
  targetFPS :: real
  lastFrameTime :: real
  lastCanvasSize :: "canvas_size option"
  starPositions :: "star list option"
  starSizes :: "real list"
  previousCirclePositions :: "(real \<times> real) list option"
  fullscreenMouseHandler :: bool
  canvas_width :: nat
  canvas_height :: nat
  painted :: "draw_op list"
  liveTracks :: "nat set"
  openContexts :: "nat set"
  nextFrameId :: nat
  statusText :: string

subsection \<open>Spectrum conditioner\<close>

text \<open>\<^verbatim>\<open>Math.floor(frequencyData.length * 0.6)\<close> of \<^verbatim>\<open>applyHighEndBoost\<close>.\<close>

definition highEndStart :: "nat \<Rightarrow> nat" where
  "highEndStart n = nat \<lfloor>real n * 0.6\<rfloor>"

text \<open>The body of the loop of \<^verbatim>\<open>applyHighEndBoost\<close> for bin \<open>i\<close> of \<open>n\<close> holding \<open>v\<close>.\<close>

definition boost_value :: "nat \<Rightarrow> nat \<Rightarrow> nat \<Rightarrow> real \<Rightarrow> real" where
  "boost_value n hs i v =
     (if i \<ge> hs then
        (let frequencyPosition = (real i - real hs) / (real n - real hs);
             boostAmount = 0.5 + frequencyPosition * 0.8
         in min 255 (v * (1 + boostAmount)))
      else v)"

function boost_loop :: "byte list \<Rightarrow> nat \<Rightarrow> nat \<Rightarrow> real list \<Rightarrow> real list" where
  "boost_loop fdata hs i boostedData =
     (if i < length fdata then
        boost_loop fdata hs (Suc i)
          (boostedData[i := boost_value (length fdata) hs i (byte_val (fdata ! i))])
      else boostedData)"
  by pat_completeness auto
termination
  by (relation "measure (\<lambda>(fd, hs, i, bd). length fd - i)") auto

declare boost_loop.simps [simp del]

text \<open>
  \<^verbatim>\<open>applyHighEndBoost\<close>: an empty buffer is returned as it is; otherwise a fresh
  zero-filled array of the same length is filled by the loop.
\<close>

definition applyHighEndBoost :: "byte list \<Rightarrow> real list" where
  "applyHighEndBoost fdata =
     (if length fdata = 0 then map byte_val fdata
      else boost_loop fdata (highEndStart (length fdata)) 0
             (replicate (length fdata) 0))"

text \<open>The smoothing factor \<^verbatim>\<open>alpha\<close> and the smoothing loop of \<^verbatim>\<open>animate\<close>.\<close>

definition alpha :: real where
  "alpha = 0.15"

function smooth_loop :: "nat \<Rightarrow> real list \<Rightarrow> nat \<Rightarrow> real list \<Rightarrow> real list" where
  "smooth_loop n boosted i smoothed =
     (if i < n then
        smooth_loop n boosted (Suc i)
          (smoothed[i := alpha * (boosted ! i) + (1 - alpha) * (smoothed ! i)])
      else smoothed)"
  by pat_completeness auto
termination
  by (relation "measure (\<lambda>(n, b, i, s). n - i)") auto

declare smooth_loop.simps [simp del]

text \<open>
  \<^verbatim>\<open>getByteFrequencyData\<close> and \<^verbatim>\<open>getByteTimeDomainData\<close> copy the analyser's sample into
  the array: a longer sample is cut, and the elements of the array past the sample stay.
\<close>

definition getByteData :: "byte list \<Rightarrow> byte list \<Rightarrow> byte list" where
  "getByteData sample array = take (length array) sample @ drop (length sample) array"

text \<open>
  The conditioning block of \<^verbatim>\<open>animate\<close> (the body of
  \<^verbatim>\<open>if (this.frequencyData && this.frequencyData.length > 0)\<close>), given the analyser's
  frequency and time-domain samples of this frame.
\<close>

definition conditionSpectrum :: "byte list \<Rightarrow> byte list \<Rightarrow> visualizer \<Rightarrow> visualizer" where
  "conditionSpectrum freqSample timeSample s =
     (if length (frequencyData s) > 0 then
        (let s1 = s\<lparr>frequencyData := getByteData freqSample (frequencyData s),
                     dataArray := getByteData timeSample (dataArray s)\<rparr>;
             boosted = applyHighEndBoost (frequencyData s1);
             s2 = s1\<lparr>boostedFrequencyData := Some boosted\<rparr>;
             s3 = (if length (smoothedFrequencyData s2) \<noteq> length (frequencyData s2)
                   then s2\<lparr>smoothedFrequencyData := replicate (length (frequencyData s2)) 0\<rparr>
                   else s2)
         in s3\<lparr>smoothedFrequencyData :=
                 smooth_loop (length (frequencyData s3)) boosted 0 (smoothedFrequencyData s3)\<rparr>)
      else s)"

text \<open>The conditioner run over the samples of successive frames.\<close>

fun conditionFrames :: "(byte list \<times> byte list) list \<Rightarrow> visualizer \<Rightarrow> visualizer" where
  "conditionFrames [] s = s"
| "conditionFrames ((f, t) # fs) s = conditionFrames fs (conditionSpectrum f t s)"

subsection \<open>Canvas set-up\<close>

text \<open>
  What \<^verbatim>\<open>setupCanvas\<close> reads of the page: the width of the bounding rectangle of the
  canvas's parent element (\<open>None\<close> when there is no parent) and the window's inner size.
\<close>

record environment =
  containerWidth :: "real option"
  innerWidth :: real
  innerHeight :: real

text \<open>
  Assigning a number to \<^verbatim>\<open>canvas.width\<close> or \<^verbatim>\<open>canvas.height\<close> converts it to an unsigned
  long (truncation towards zero, modulo \<open>2^32\<close>); a result above \<open>2147483647\<close> is replaced
  by the attribute's default, 300 for the width and 150 for the height.
\<close>

definition toUint32 :: "real \<Rightarrow> nat" where
  "toUint32 x = nat ((if x \<ge> 0 then \<lfloor>x\<rfloor> else \<lceil>x\<rceil>) mod 2 ^ 32)"

definition set_canvas_dim :: "nat \<Rightarrow> real \<Rightarrow> nat" where
  "set_canvas_dim dflt x = (let n = toUint32 x in if n \<le> 2147483647 then n else dflt)"

text \<open>\<^verbatim>\<open>setupCanvas\<close>. Assigning a dimension also clears the canvas.\<close>

definition setupCanvas :: "environment \<Rightarrow> visualizer \<Rightarrow> visualizer" where
  "setupCanvas env s =
     (case containerWidth env of
        None \<Rightarrow> s
      | Some rectWidth \<Rightarrow>
          (let isMobile = (innerWidth env \<le> 768);
               s1 = (if isMobile then
                       (let m = s\<lparr>canvas_width := set_canvas_dim 300 (rectWidth - 20),
                                   canvas_height := set_canvas_dim 150 (min (innerHeight env * 0.5) 400),
                                   painted := []\<rparr>
                        in if canvas_width m \<le> 0 \<or> canvas_height m \<le> 0
                           then m\<lparr>canvas_width := 320, canvas_height := 240\<rparr>
                           else m)
                     else s\<lparr>canvas_width := set_canvas_dim 300 (min 1200 (rectWidth - 40)),
                             canvas_height := set_canvas_dim 150 (min 800 (rectWidth * 0.6)),
                             painted := []\<rparr>)
           in s1\<lparr>lastCanvasSize := Some (SizeObject (canvas_width s1) (canvas_height s1))\<rparr>))"

definition handleResize :: "environment \<Rightarrow> visualizer \<Rightarrow> visualizer" where
  "handleResize env s = setupCanvas env s"

text \<open>
  A window \<^verbatim>\<open>resize\<close> event runs the two listeners of \<^verbatim>\<open>setupEventListeners\<close> in the
  order of their registration: \<^verbatim>\<open>handleResize\<close>, then the fullscreen resizing.
\<close>

definition onResize :: "environment \<Rightarrow> visualizer \<Rightarrow> visualizer" where
  "onResize env s =
     (let s1 = handleResize env s
      in if isFullscreen s1
         then s1\<lparr>canvas_width := set_canvas_dim 300 (innerWidth env),
                 canvas_height := set_canvas_dim 150 (innerHeight env),
                 painted := []\<rparr>
         else s1)"

subsection \<open>Raindrops\<close>

definition createRaindrop :: "real \<Rightarrow> real \<Rightarrow> real \<Rightarrow> real \<Rightarrow> real \<Rightarrow> visualizer \<Rightarrow> visualizer" where
  "createRaindrop x y width height value s =
     s\<lparr>raindrops := raindrops s @
        [\<lparr>drop_x = x + width / 2,
          drop_y = y + height,
          drop_width = max 1 (width * 0.3),
          drop_height = max 2 (height * 0.1),
          drop_speed = 1.5 + (value / 255) * 2.5,
          drop_alpha = 0.8,
          drop_value = value\<rparr>]\<rparr>"

text \<open>One pass of the body of the loop of \<^verbatim>\<open>updateRaindrops\<close> over a raindrop.\<close>

definition fall :: "raindrop \<Rightarrow> raindrop" where
  "fall raindrop =
     (let r1 = raindrop\<lparr>drop_y := drop_y raindrop + drop_speed raindrop\<rparr>
      in r1\<lparr>drop_alpha := drop_alpha r1 - 0.005\<rparr>)"

text \<open>
  The loop of \<^verbatim>\<open>updateRaindrops\<close> runs \<open>i\<close> from the last index down to 0;
  \<open>update_loop h (Suc i) rs\<close> is the loop about to treat index \<open>i\<close>, and
  \<^verbatim>\<open>splice(i, 1)\<close> removes the element at \<open>i\<close>. \<open>gone h raindrop\<close> is the test
  \<^verbatim>\<open>raindrop.y > this.canvas.height || raindrop.alpha <= 0\<close> with \<open>h\<close> the canvas height.
\<close>

definition gone :: "real \<Rightarrow> raindrop \<Rightarrow> bool" where
  "gone h raindrop \<longleftrightarrow> drop_y raindrop > h \<or> drop_alpha raindrop \<le> 0"

fun update_loop :: "real \<Rightarrow> nat \<Rightarrow> raindrop list \<Rightarrow> raindrop list" where
  "update_loop h 0 rs = rs"
| "update_loop h (Suc i) rs =
     (let raindrop = fall (rs ! i);
          rs1 = rs[i := raindrop]
      in update_loop h i
           (if gone h raindrop
            then take i rs1 @ drop (Suc i) rs1
            else rs1))"

definition updateRaindrops :: "visualizer \<Rightarrow> visualizer" where
  "updateRaindrops s =
     s\<lparr>raindrops := update_loop (real (canvas_height s)) (length (raindrops s)) (raindrops s)\<rparr>"

definition drawRaindrops :: "visualizer \<Rightarrow> visualizer" where
  "drawRaindrops s =
     s\<lparr>painted := painted s @
        map (\<lambda>raindrop.
               Fill (RoundedRect (drop_x raindrop) (drop_y raindrop)
                       (drop_width raindrop) (drop_height raindrop)
                       (max 1 (drop_width raindrop * 0.3)))
                    (Hsla (drop_value raindrop + 200) 70 50 (drop_alpha raindrop)) 0)
            (raindrops s)\<rparr>"

text \<open>The update cycle run \<open>n\<close> times on a store, the canvas height being \<open>h\<close>.\<close>

fun update_cycles :: "nat \<Rightarrow> real \<Rightarrow> raindrop list \<Rightarrow> raindrop list" where
  "update_cycles 0 h rs = rs"
| "update_cycles (Suc n) h rs = update_cycles n h (update_loop h (length rs) rs)"

subsection \<open>Drawing modes\<close>

definition paint_ops :: "draw_op list \<Rightarrow> visualizer \<Rightarrow> visualizer" where
  "paint_ops ops s = s\<lparr>painted := painted s @ ops\<rparr>"

text \<open>
  The \<^verbatim>\<open>const data = ...\<close> of the bar modes, of \<^verbatim>\<open>drawCircles\<close> and of
  \<^verbatim>\<open>drawStarlight\<close>: the boosted buffer when there is one, else the smoothing buffer
  when its length fits, else the raw buffer. A typed array is truthy whatever its length.
\<close>

definition mode_data :: "visualizer \<Rightarrow> real list" where
  "mode_data s =
     (case boostedFrequencyData s of
        Some boosted \<Rightarrow> boosted
      | None \<Rightarrow>
          (if length (smoothedFrequencyData s) = length (frequencyData s)
           then smoothedFrequencyData s
           else map byte_val (frequencyData s)))"

text \<open>The \<^verbatim>\<open>const data = ...\<close> of \<^verbatim>\<open>drawRetroBox\<close>; the smoothing buffer always exists.\<close>

definition retroBox_data :: "visualizer \<Rightarrow> real list" where
  "retroBox_data s =
     (case boostedFrequencyData s of
        Some boosted \<Rightarrow> boosted
      | None \<Rightarrow> smoothedFrequencyData s)"

text \<open>The helper \<^verbatim>\<open>drawRoundedBarFlat\<close>, which closes over \<^verbatim>\<open>radius\<close>.\<close>

definition drawRoundedBarFlat :: "real \<Rightarrow> real \<Rightarrow> real \<Rightarrow> real \<Rightarrow> real \<Rightarrow> real \<Rightarrow> draw_op" where
  "drawRoundedBarFlat radius x y width height value =
     Fill (RoundedRect x y width height (min radius (min (width / 2) (height / 2))))
          (Hsla (value + 200) 70 50 1) 0"

text \<open>\<^verbatim>\<open>drawWaveform\<close>: the stroke style in force at \<^verbatim>\<open>stroke()\<close> is that of the last sample.\<close>

definition drawWaveform :: "visualizer \<Rightarrow> visualizer" where
  "drawWaveform s =
     (if length (dataArray s) = 0 then s
      else if length (frequencyData s) = 0 then s
      else
        (let n = length (dataArray s);
             w = real (canvas_width s);
             h = real (canvas_height s);
             sliceWidth = w / real n;
             v = (\<lambda>i. byte_val (dataArray s ! i) / 128);
             hue = (\<lambda>i. real_of_int \<lfloor>\<bar>v i\<bar> * 255\<rfloor> * sensitivity s + 200);
             main = Stroke
               (Polyline (map (\<lambda>i. (real i * sliceWidth, v i * h / 2)) [0..<n] @ [(w, h / 2)]))
               (Hsla (hue (n - 1)) (70 + \<bar>v (n - 1)\<bar> * 20) (50 + \<bar>v (n - 1)\<bar> * 30) 1) 4;
             mirror = Stroke
               (Polyline (map (\<lambda>i. (real i * sliceWidth, h - v i * h / 2)) [0..<n] @ [(w, h / 2)]))
               (Hsla (hue (n - 1)) (70 + \<bar>v (n - 1)\<bar> * 15) (40 + \<bar>v (n - 1)\<bar> * 25)
                     (0.4 + \<bar>v (n - 1)\<bar> * 0.3)) 4
         in paint_ops [main, mirror] s))"

text \<open>\<^verbatim>\<open>drawCircular\<close> reads every fourth bin of the raw buffer \<^verbatim>\<open>this.frequencyData\<close>.\<close>

definition circular_value :: "visualizer \<Rightarrow> nat \<Rightarrow> real" where
  "circular_value s i = byte_val (frequencyData s ! i) * sensitivity s"

definition drawCircular :: "visualizer \<Rightarrow> visualizer" where
  "drawCircular s =
     (if length (frequencyData s) = 0 then s
      else
        (let centerX = real (canvas_width s) / 2;
             centerY = real (canvas_height s) / 2;
             radius = min centerX centerY * 0.6
         in paint_ops
              (map (\<lambda>i. let value = circular_value s i;
                             currentRadius = radius + (value / 255) * 100;
                             alpha = (value / 255) * 0.8 + 0.2
                         in Stroke (Circle centerX centerY currentRadius)
                                   (Hsla (value + 200) 70 60 alpha) ((value / 255) * 5 + 1))
                   (filter (\<lambda>i. i mod 4 = 0) [0..<length (frequencyData s)]))
              s))"

text \<open>The value of bin \<open>i\<close> in the bar modes: \<^verbatim>\<open>data[i] * this.sensitivity\<close>.\<close>

definition bar_value :: "visualizer \<Rightarrow> nat \<Rightarrow> real" where
  "bar_value s i = mode_data s ! i * sensitivity s"

text \<open>The two bars that one pass of the loop of \<^verbatim>\<open>drawFrequencyBars2x\<close> draws for bin \<open>i\<close>.\<close>

definition bars2x_at :: "visualizer \<Rightarrow> nat \<Rightarrow> draw_op list" where
  "bars2x_at s i =
     (let totalBars = length (mode_data s);
          centerX = real (canvas_width s) / 2;
          perSideSpacing = real (canvas_width s) / 2 / real totalBars;
          barWidth = perSideSpacing + 5;
          barHeight = real (canvas_height s) * 0.8;
          radius = max 2 (min 6 (barWidth * 0.3));
          value = bar_value s i;
          height = (value / 255) * barHeight;
          y = real (canvas_height s) - height;
          xRight = centerX + real i * perSideSpacing + (perSideSpacing - barWidth) / 2;
          xLeft = centerX - (real i + 1) * perSideSpacing + (perSideSpacing - barWidth) / 2
      in [drawRoundedBarFlat radius xRight y barWidth height value,
          drawRoundedBarFlat radius xLeft y barWidth height value])"

definition drawFrequencyBars2x :: "visualizer \<Rightarrow> visualizer" where
  "drawFrequencyBars2x s =
     (if length (frequencyData s) = 0 then s
      else paint_ops (concat (map (bars2x_at s) [0..<length (mode_data s)])) s)"

text \<open>
  One pass of the loop of \<^verbatim>\<open>drawFrequencyBars3x\<close>; \<open>s0\<close> is the state at the start of
  the function, from which the loop's constants come, \<open>now\<close> is \<^verbatim>\<open>Date.now()\<close>. A timer
  entry that is missing or 0 is falsy and is set to 0, so the entry reads \<open>timer\<close> after the
  initialisation in either case.
\<close>

definition bars3x_step :: "real \<Rightarrow> visualizer \<Rightarrow> nat \<Rightarrow> visualizer \<Rightarrow> visualizer" where
  "bars3x_step now s0 i s =
     (let totalBars = length (mode_data s0);
          centerX = real (canvas_width s0) / 2;
          perSideSpacing = real (canvas_width s0) / 2 / real totalBars;
          barWidth = perSideSpacing + 5;
          barHeight = real (canvas_height s0) * 0.35;
          radius = max 2 (min 6 (barWidth * 0.3));
          value = bar_value s0 i;
          height = (value / 255) * barHeight * 0.6;
          y = 0;
          xRight = centerX + real i * perSideSpacing + (perSideSpacing - barWidth) / 2;
          xLeft = centerX - (real i + 1) * perSideSpacing + (perSideSpacing - barWidth) / 2;
          s1 = paint_ops [drawRoundedBarFlat radius xRight y barWidth height value,
                          drawRoundedBarFlat radius xLeft y barWidth height value] s
      in if height > 15 then
           (let timer = (case barRaindropTimers s1 i of None \<Rightarrow> 0 | Some t \<Rightarrow> t);
                s2 = s1\<lparr>barRaindropTimers := (barRaindropTimers s1)(i \<mapsto> timer)\<rparr>
            in if now - timer > raindropInterval s2 then
                 (let s3 = createRaindrop xRight y barWidth height value s2;
                      s4 = createRaindrop xLeft y barWidth height value s3
                  in s4\<lparr>barRaindropTimers := (barRaindropTimers s4)(i \<mapsto> now)\<rparr>)
               else s2)
         else s1)"

definition drawFrequencyBars3x :: "real \<Rightarrow> visualizer \<Rightarrow> visualizer" where
  "drawFrequencyBars3x now s =
     (if length (frequencyData s) = 0 then s
      else
        (let s1 = fold (bars3x_step now s) [0..<length (mode_data s)] s;
             s2 = updateRaindrops s1
         in drawRaindrops s2))"

definition bars4x_at :: "visualizer \<Rightarrow> nat \<Rightarrow> draw_op list" where
  "bars4x_at s i =
     (let totalBars = length (mode_data s);
          centerX = real (canvas_width s) / 2;
          centerY = real (canvas_height s) / 2;
          perQuadrantSpacing = real (canvas_width s) / 2 / real totalBars;
          barWidth = perQuadrantSpacing + 4;
          maxBarHeight = real (canvas_height s) / 3;
          radius = max 2 (min 6 (barWidth * 0.3));
          value = bar_value s i;
          height = (value / 255) * maxBarHeight;
          xTopRight = centerX + real i * perQuadrantSpacing + (perQuadrantSpacing - barWidth) / 2;
          yTopRight = centerY - height;
          xTopLeft = centerX - (real i + 1) * perQuadrantSpacing + (perQuadrantSpacing - barWidth) / 2;
          yTopLeft = centerY - height;
          xBottomRight = centerX + real i * perQuadrantSpacing + (perQuadrantSpacing - barWidth) / 2;
          yBottomRight = centerY - 0.5;
          xBottomLeft = centerX - (real i + 1) * perQuadrantSpacing + (perQuadrantSpacing - barWidth) / 2;
          yBottomLeft = centerY - 0.5
      in [drawRoundedBarFlat radius xTopRight yTopRight barWidth height value,
          drawRoundedBarFlat radius xTopLeft yTopLeft barWidth height value,
          drawRoundedBarFlat radius xBottomRight yBottomRight barWidth height value,
          drawRoundedBarFlat radius xBottomLeft yBottomLeft barWidth height value])"

definition drawFrequencyBars4x :: "visualizer \<Rightarrow> visualizer" where
  "drawFrequencyBars4x s =
     (if length (frequencyData s) = 0 then s
      else paint_ops (concat (map (bars4x_at s) [0..<length (mode_data s)])) s)"

text \<open>
  One pass of the loop of \<^verbatim>\<open>drawCircles\<close>. Writing index \<open>i\<close> of a JavaScript array of
  length \<open>i\<close> extends it; the loop writes the indices in ascending order, so no index
  beyond the length is written.
\<close>

definition circles_step :: "visualizer \<Rightarrow> nat \<Rightarrow> visualizer \<Rightarrow> visualizer" where
  "circles_step s0 i s =
     (let centerX = real (canvas_width s0) / 2;
          centerY = real (canvas_height s0) / 2;
          maxRadius = min centerX centerY * 0.8;
          circleCount = min (length (mode_data s0)) 64;
          angleStep = (2 * pi) / real circleCount;
          value = bar_value s0 i;
          angle = real i * angleStep;
          distance = (value / 255) * maxRadius;
          x = centerX + cos angle * distance;
          y = centerY + sin angle * distance;
          positions = (case previousCirclePositions s of None \<Rightarrow> [] | Some l \<Rightarrow> l);
          prevPos = (if i < length positions then Some (positions ! i) else None);
          positions1 = (if i < length positions then positions[i := (x, y)] else positions @ [(x, y)]);
          circleSize = (value / 255) * 8 + 2;
          hue = value + 200;
          saturation = 70 + (value / 255) * 20;
          lightness = 50 + (value / 255) * 30;
          trail =
            (case prevPos of
               None \<Rightarrow> []
             | Some (px, py) \<Rightarrow>
                 if px \<noteq> x \<or> py \<noteq> y then
                   (let trailLength = min 20 (sqrt ((x - px)\<^sup>2 + (y - py)\<^sup>2));
                        trailSteps = min 10 (nat \<lfloor>trailLength / 2\<rfloor>)
                    in map (\<lambda>step.
                              Fill (Circle (px + (x - px) * (real step / real trailSteps))
                                           (py + (y - py) * (real step / real trailSteps))
                                           (circleSize * (1 - (real step / real trailSteps) * 0.5)))
                                   (Hsla hue saturation lightness
                                         (0.3 * (1 - real step / real trailSteps))) 0)
                           [1..<Suc trailSteps])
                 else []);
          main = [Fill (Circle x y circleSize) (Hsla hue saturation lightness 1) 0];
          glow = (if value > 128
                  then [Fill (Circle x y circleSize) (Hsla hue saturation lightness 1) (circleSize * 2)]
                  else [])
      in paint_ops (trail @ main @ glow) (s\<lparr>previousCirclePositions := Some positions1\<rparr>))"

definition drawCircles :: "visualizer \<Rightarrow> visualizer" where
  "drawCircles s =
     (if length (frequencyData s) = 0 then s
      else
        (let centerX = real (canvas_width s) / 2;
             centerY = real (canvas_height s) / 2;
             circleCount = min (length (mode_data s)) 64;
             s1 = (case previousCirclePositions s of
                     None \<Rightarrow> s\<lparr>previousCirclePositions := Some (replicate circleCount (centerX, centerY))\<rparr>
                   | Some l \<Rightarrow> s)
         in fold (circles_step s) [0..<circleCount] s1))"

text \<open>The helper \<^verbatim>\<open>isOverlapping\<close> of \<^verbatim>\<open>drawStarlight\<close>, over the stars placed so far.\<close>

fun isOverlapping :: "star list \<Rightarrow> real \<Rightarrow> real \<Rightarrow> real \<Rightarrow> bool" where
  "isOverlapping [] x y sz = False"
| "isOverlapping (existingStar # rest) x y sz =
     (let distance = sqrt ((x - star_x existingStar)\<^sup>2 + (y - star_y existingStar)\<^sup>2);
          minDistance = (sz + star_size existingStar) * 1.5
      in if distance < minDistance then True else isOverlapping rest x y sz)"

text \<open>
  One attempt of the \<^verbatim>\<open>do ... while\<close> loop: three calls of \<^verbatim>\<open>Math.random()\<close>, which are
  the values \<open>rnd k\<close>, \<open>rnd (k + 1)\<close> and \<open>rnd (k + 2)\<close> of the stream of random numbers.
\<close>

definition attempt :: "(nat \<Rightarrow> real) \<Rightarrow> real \<Rightarrow> real \<Rightarrow> nat \<Rightarrow> star" where
  "attempt rnd w h k =
     \<lparr>star_x = rnd k * (w - 100) + 50,
      star_y = rnd (k + 1) * (h - 100) + 50,
      star_size = rnd (k + 2) * 3 + 1\<rparr>"

text \<open>
  The \<^verbatim>\<open>do ... while\<close> loop: \<open>attempts\<close> attempts have been made; the result is the
  attempt kept and the position reached in the stream.
\<close>

function place_star :: "(nat \<Rightarrow> real) \<Rightarrow> real \<Rightarrow> real \<Rightarrow> star list \<Rightarrow> nat \<Rightarrow> nat \<Rightarrow> star \<times> nat" where
  "place_star rnd w h stars k attempts =
     (if isOverlapping stars (star_x (attempt rnd w h k)) (star_y (attempt rnd w h k))
           (star_size (attempt rnd w h k)) \<and> Suc attempts < 100
      then place_star rnd w h stars (k + 3) (Suc attempts)
      else (attempt rnd w h k, k + 3))"
  by pat_completeness auto
termination
  by (relation "measure (\<lambda>(rnd, w, h, stars, k, attempts). 100 - attempts)") auto

declare place_star.simps [simp del]

text \<open>The loop \<^verbatim>\<open>for (let i = 0; i < starCount; i++)\<close>, with \<open>n\<close> stars left to place.\<close>

fun generate_stars :: "(nat \<Rightarrow> real) \<Rightarrow> real \<Rightarrow> real \<Rightarrow> nat \<Rightarrow> nat \<Rightarrow> star list \<Rightarrow> star list" where
  "generate_stars rnd w h 0 k stars = stars"
| "generate_stars rnd w h (Suc n) k stars =
     generate_stars rnd w h n (snd (place_star rnd w h stars k 0))
       (stars @ [fst (place_star rnd w h stars k 0)])"

text \<open>What the drawing loop of \<^verbatim>\<open>drawStarlight\<close> paints for star \<open>i\<close>.\<close>

definition star_value :: "visualizer \<Rightarrow> nat \<Rightarrow> real" where
  "star_value s i = mode_data s ! (i mod length (mode_data s)) * sensitivity s"

definition star_ops :: "visualizer \<Rightarrow> star list \<Rightarrow> nat \<Rightarrow> draw_op list" where
  "star_ops s stars i =
     (let star = stars ! i;
          baseSize = starSizes s ! i;
          value = star_value s i;
          brightness = value / 255;
          starSize = baseSize + brightness * 3;
          hue = value + 200;
          saturation = 85 + brightness * 15;
          lightness = 25 + brightness * 55;
          alpha = 0.4 + brightness * 0.6
      in [Fill (Circle (star_x star) (star_y star) starSize) (Hsla hue saturation lightness alpha) 0]
         @ (if brightness > 0.5
            then [Fill (Circle (star_x star) (star_y star) starSize)
                       (Hsla hue saturation lightness alpha) (starSize * 2)]
            else [])
         @ (if brightness > 0.8
            then [Fill (Circle (star_x star) (star_y star) (starSize * 0.5))
                       (Hsla hue saturation 95 (brightness * 0.7)) 0]
            else []))"

text \<open>
  \<^verbatim>\<open>drawStarlight\<close>; \<open>rnd\<close> is the stream of the values that \<^verbatim>\<open>Math.random()\<close> returns
  during this call. \<^verbatim>\<open>!this.starPositions\<close> holds only before the first generation.
\<close>

definition drawStarlight :: "(nat \<Rightarrow> real) \<Rightarrow> visualizer \<Rightarrow> visualizer" where
  "drawStarlight rnd s =
     (if length (frequencyData s) = 0 then s
      else
        (let currentCanvasSize = (canvas_width s, canvas_height s);
             s1 = (if starPositions s = None \<or> strict_neq_string (lastCanvasSize s) currentCanvasSize
                   then
                     (let starCount = min (length (mode_data s)) 128;
                          stars = generate_stars rnd (real (canvas_width s)) (real (canvas_height s))
                                    starCount 0 []
                      in s\<lparr>starPositions := Some stars,
                           starSizes := map star_size stars,
                           lastCanvasSize := Some (SizeString (canvas_width s) (canvas_height s))\<rparr>)
                   else s);
             stars = (case starPositions s1 of None \<Rightarrow> [] | Some l \<Rightarrow> l)
         in paint_ops (concat (map (star_ops s1 stars) [0..<length stars])) s1))"

text \<open>
  \<^verbatim>\<open>drawRetroBox\<close>. \<open>retroBox_value s i\<close> is \<^verbatim>\<open>data[dataIndex] || 0\<close> for bar \<open>i\<close>, and
  \<open>retroBox_barLength s i\<close> its \<^verbatim>\<open>barLength\<close>. The fixed decoration painted after the
  bars (centre line, scan lines, corner accents) reads neither the spectrum nor the
  sensitivity and is left out.
\<close>

definition retroBox_maxBars :: "visualizer \<Rightarrow> nat" where
  "retroBox_maxBars s = nat \<lfloor>real (canvas_width s) / (8 + 4)\<rfloor>"

definition retroBox_value :: "visualizer \<Rightarrow> nat \<Rightarrow> real" where
  "retroBox_value s i =
     (let data = retroBox_data s;
          dataIndex = nat \<lfloor>(real i / real (retroBox_maxBars s)) * real (length data)\<rfloor>
      in data ! dataIndex)"

definition retroBox_barLength :: "visualizer \<Rightarrow> nat \<Rightarrow> real" where
  "retroBox_barLength s i =
     (let barHeight = real (canvas_height s) * 0.8
      in (retroBox_value s i / 255) * barHeight * 0.6 + 10)"

definition retroBox_at :: "real \<Rightarrow> visualizer \<Rightarrow> nat \<Rightarrow> draw_op list" where
  "retroBox_at now s i =
     (let barWidth = 8;
          spacing = 4;
          centerY = real (canvas_height s) / 2;
          time = now * 0.001;
          waveSpeed = 2;
          waveAmplitude = 20;
          x = real i * (barWidth + spacing);
          waveOffset = sin (time * waveSpeed + real i * 0.1) * waveAmplitude;
          barLength = retroBox_barLength s i;
          startY = centerY - barLength / 2 + waveOffset;
          endY = centerY + barLength / 2 + waveOffset;
          gradient = LinearGradient x startY (x + barWidth) endY
                       [(0, ''#39ff14''), (0.3, ''#32cd32''), (0.7, ''#32cd32''), (1, ''#39ff14'')]
      in [Fill (Rect x startY barWidth barLength) gradient 0,
          Fill (Rect x startY barWidth barLength) gradient 15,
          Fill (Rect x startY barWidth 2) (Css ''#ffffff'') 0,
          Fill (Rect x (endY - 2) barWidth 2) (Css ''#39ff14'') 0,
          Fill (Rect (x + 1) (startY + 1) (barWidth - 2) (barLength - 2))
               (Css ''rgba(57, 255, 20, 0.4)'') 0])"

definition drawRetroBox :: "real \<Rightarrow> visualizer \<Rightarrow> visualizer" where
  "drawRetroBox now s =
     (let s1 = paint_ops [Fill (Rect 0 0 (real (canvas_width s)) (real (canvas_height s)))
                               (Css ''rgba(0, 0, 0, 0.15)'') 0] s
      in if length (retroBox_data s1) = 0 then s1
         else paint_ops (concat (map (retroBox_at now s1) [0..<retroBox_maxBars s1])) s1)"

subsection \<open>Frame scheduler\<close>

text \<open>
  What one call of the \<^verbatim>\<open>animate\<close> callback receives from outside: its timestamp, the
  value of \<^verbatim>\<open>Date.now()\<close> during the frame, the analyser's two samples and the values
  that \<^verbatim>\<open>Math.random()\<close> returns.
\<close>

record frame =
  frame_timestamp :: real
  frame_now :: real
  frame_freq :: "byte list"
  frame_time :: "byte list"
  frame_random :: "nat \<Rightarrow> real"

text \<open>\<^verbatim>\<open>draw\<close>: clear the canvas, then dispatch on \<^verbatim>\<open>visualType\<close>; an unknown type paints nothing.\<close>

definition draw :: "frame \<Rightarrow> visualizer \<Rightarrow> visualizer" where
  "draw f s =
     (let s1 = s\<lparr>painted := []\<rparr>
      in if visualType s1 = ''waveform'' then drawWaveform s1
         else if visualType s1 = ''circular'' then drawCircular s1
         else if visualType s1 = ''frequency2x'' then drawFrequencyBars2x s1
         else if visualType s1 = ''frequency3x'' then drawFrequencyBars3x (frame_now f) s1
         else if visualType s1 = ''frequency4x'' then drawFrequencyBars4x s1
         else if visualType s1 = ''circles'' then drawCircles s1
         else if visualType s1 = ''starlight'' then drawStarlight (frame_random f) s1
         else if visualType s1 = ''retroBox'' then drawRetroBox (frame_now f) s1
         else s1)"

text \<open>\<^verbatim>\<open>requestAnimationFrame\<close> returns a fresh, non-zero request id.\<close>

definition requestAnimationFrame :: "visualizer \<Rightarrow> visualizer" where
  "requestAnimationFrame s = s\<lparr>animationId := Some (nextFrameId s), nextFrameId := Suc (nextFrameId s)\<rparr>"

definition animate :: "frame \<Rightarrow> visualizer \<Rightarrow> visualizer" where
  "animate f s =
     (if \<not> isPlaying s \<or> analyser s = None then s
      else
        (let minDelta = 1000 / targetFPS s
         in if lastFrameTime s \<noteq> 0 \<and> frame_timestamp f - lastFrameTime s < minDelta
            then requestAnimationFrame s
            else
              (let s1 = s\<lparr>lastFrameTime := frame_timestamp f\<rparr>;
                   s2 = conditionSpectrum (frame_freq f) (frame_time f) s1;
                   s3 = draw f s2
               in requestAnimationFrame s3)))"

definition startVisualization :: "environment \<Rightarrow> visualizer \<Rightarrow> visualizer" where
  "startVisualization env s =
     (if animationId s \<noteq> None then s
      else if analyser s = None then s
      else
        (let s1 = (if canvas_width s \<le> 0 \<or> canvas_height s \<le> 0 then setupCanvas env s else s)
         in requestAnimationFrame s1))"

definition stopVisualization :: "visualizer \<Rightarrow> visualizer" where
  "stopVisualization s =
     (case animationId s of
        Some request \<Rightarrow> s\<lparr>animationId := None\<rparr>
      | None \<Rightarrow> s)"

subsection \<open>Starting and stopping capture\<close>

definition updateStatus :: "string \<Rightarrow> visualizer \<Rightarrow> visualizer" where
  "updateStatus message s = s\<lparr>statusText := message\<rparr>"

text \<open>
  \<^verbatim>\<open>startMicrophone\<close>: \<open>stream\<close> is the list of tracks of the stream that
  \<^verbatim>\<open>getUserMedia\<close> grants, live from then on, or \<open>None\<close> when it rejects; \<open>ctx\<close> is the new
  audio context.
\<close>

definition startMicrophone :: "environment \<Rightarrow> nat list option \<Rightarrow> nat \<Rightarrow> visualizer \<Rightarrow> visualizer" where
  "startMicrophone env stream ctx s =
     (let s0 = updateStatus ''Requesting microphone access...'' s
      in case stream of
           None \<Rightarrow> updateStatus ''Error: Could not access microphone. Please check permissions.'' s0
         | Some tracks \<Rightarrow>
             (let s1 = s0\<lparr>liveTracks := liveTracks s0 \<union> set tracks\<rparr>;
                  s2 = s1\<lparr>audioContext := Some ctx, openContexts := insert ctx (openContexts s1)\<rparr>;
                  s3 = s2\<lparr>analyser := Some \<lparr>fftSize = 256, smoothingTimeConstant = 0.9\<rparr>,
                          gainNode := True,
                          microphone := Some \<lparr>mediaStream = tracks\<rparr>\<rparr>;
                  s4 = s3\<lparr>smoothedFrequencyData := replicate (length (frequencyData s3)) 0\<rparr>;
                  s5 = s4\<lparr>isPlaying := True\<rparr>;
                  s6 = updateStatus
                         ''Microphone active - Speak or play music! (Audio not played back)'' s5
              in startVisualization env s6))"

text \<open>
  \<^verbatim>\<open>startScreenShare\<close>. On a mobile device the chain of capture attempts is represented
  by its outcome \<open>stream\<close>, which the code wraps as \<^verbatim>\<open>this.microphone\<close>; on the desktop
  \<open>stream\<close> is what \<^verbatim>\<open>getDisplayMedia\<close> grants, wrapped as \<^verbatim>\<open>this.screenShare\<close>, and
  \<open>None\<close> is its rejection with \<^verbatim>\<open>NotAllowedError\<close>. The status line that the mobile
  path shows on success depends on the label of the captured track and is left as it is.
\<close>

definition startScreenShare :: "environment \<Rightarrow> bool \<Rightarrow> nat list option \<Rightarrow> nat \<Rightarrow> visualizer \<Rightarrow> visualizer" where
  "startScreenShare env isMobile stream ctx s =
     (let s0 = updateStatus ''Requesting screen share access...'' s
      in if isMobile then
           (case stream of
              None \<Rightarrow> updateStatus
                        ''Mobile audio capture failed. Please check microphone permissions.'' s0
            | Some tracks \<Rightarrow>
                (let s1 = s0\<lparr>liveTracks := liveTracks s0 \<union> set tracks\<rparr>;
                     s2 = s1\<lparr>audioContext := Some ctx, openContexts := insert ctx (openContexts s1)\<rparr>;
                     s3 = s2\<lparr>analyser := Some \<lparr>fftSize = 256, smoothingTimeConstant = 0.8\<rparr>,
                             gainNode := True,
                             microphone := Some \<lparr>mediaStream = tracks\<rparr>\<rparr>;
                     s4 = s3\<lparr>isPlaying := True\<rparr>
                 in startVisualization env s4))
         else
           (case stream of
              None \<Rightarrow> updateStatus
                        ''Screen share denied. Please allow access to share your screen.'' s0
            | Some tracks \<Rightarrow>
                (let s1 = s0\<lparr>liveTracks := liveTracks s0 \<union> set tracks\<rparr>;
                     s2 = s1\<lparr>audioContext := Some ctx, openContexts := insert ctx (openContexts s1)\<rparr>;
                     s3 = s2\<lparr>analyser := Some \<lparr>fftSize = 256, smoothingTimeConstant = 0.9\<rparr>,
                             gainNode := True,
                             screenShare := Some \<lparr>mediaStream = tracks\<rparr>\<rparr>;
                     s4 = s3\<lparr>smoothedFrequencyData := replicate (length (frequencyData s3)) 0\<rparr>;
                     s5 = s4\<lparr>isPlaying := True\<rparr>;
                     s6 = updateStatus
                            ''Screen share active - Audio from your screen is being visualized!'' s5
                 in startVisualization env s6)))"

text \<open>
  \<^verbatim>\<open>stopScreenShare\<close>. \<^verbatim>\<open>disconnect()\<close> detaches the source node from the audio graph;
  it stops no track of the node's stream.
\<close>

definition stopScreenShare :: "visualizer \<Rightarrow> visualizer" where
  "stopScreenShare s =
     (let s1 = (case screenShare s of
                  Some source \<Rightarrow> s\<lparr>screenShare := None\<rparr>
                | None \<Rightarrow> s);
          s2 = stopVisualization s1
      in updateStatus ''Screen share stopped'' s2)"

text \<open>\<^verbatim>\<open>stopVisualizer\<close>. \<^verbatim>\<open>track.stop()\<close> ends a track, \<^verbatim>\<open>close()\<close> closes an audio context.\<close>

definition stopVisualizer :: "visualizer \<Rightarrow> visualizer" where
  "stopVisualizer s =
     (let s1 = stopVisualization s;
          s2 = (case microphone s1 of
                  Some source \<Rightarrow>
                    s1\<lparr>liveTracks := liveTracks s1 - set (mediaStream source), microphone := None\<rparr>
                | None \<Rightarrow> s1);
          s3 = (case audioContext s2 of
                  Some ctx \<Rightarrow> s2\<lparr>openContexts := openContexts s2 - {ctx}, audioContext := None\<rparr>
                | None \<Rightarrow> s2);
          s4 = stopScreenShare s3;
          s5 = (if fullscreenMouseHandler s4 then s4\<lparr>fullscreenMouseHandler := False\<rparr> else s4);
          s6 = (case audioContext s5 of
                  Some ctx \<Rightarrow> s5\<lparr>openContexts := openContexts s5 - {ctx}, audioContext := None\<rparr>
                | None \<Rightarrow> s5);
          s7 = s6\<lparr>analyser := None, gainNode := False, isPlaying := False\<rparr>;
          s8 = s7\<lparr>raindrops := [], lastRaindropTime := 0, barRaindropTimers := Map.empty\<rparr>;
          s9 = s8\<lparr>painted := []\<rparr>
      in updateStatus ''Visualizer stopped. Ready to start again.'' s9)"

subsection \<open>Fullscreen, preferences and the event handlers\<close>





text \<open>
  \<^verbatim>\<open>loadUserPreferences\<close> and \<^verbatim>\<open>importPreferences\<close>, given the stored visual type and the
  parsed stored sensitivity, each possibly absent.
\<close>

definition loadUserPreferences :: "string option \<Rightarrow> real option \<Rightarrow> visualizer \<Rightarrow> visualizer" where
  "loadUserPreferences savedVisualType savedSensitivity s =
     (let s1 = (case savedVisualType of Some t \<Rightarrow> s\<lparr>visualType := t\<rparr> | None \<Rightarrow> s)
      in case savedSensitivity of Some v \<Rightarrow> s1\<lparr>sensitivity := v\<rparr> | None \<Rightarrow> s1)"



text \<open>The constructor: the field initialisers, then \<^verbatim>\<open>init\<close> and \<^verbatim>\<open>loadUserPreferences\<close>.\<close>

definition fields :: visualizer where
  "fields =
     \<lparr>audioContext = None, analyser = None, microphone = None, gainNode = False,
      isPlaying = False, animationId = None, screenShare = None,
      dataArray = replicate 128 0, frequencyData = replicate 128 0,
      smoothedFrequencyData = replicate 128 0, boostedFrequencyData = None,
      sensitivity = 1.0, visualType = ''frequency3x'', isFullscreen = False,
      raindrops = [], lastRaindropTime = 0, raindropInterval = 200,
      barRaindropTimers = Map.empty, targetFPS = 45, lastFrameTime = 0,
      lastCanvasSize = None, starPositions = None, starSizes = [],
      previousCirclePositions = None, fullscreenMouseHandler = False,
      canvas_width = 1400, canvas_height = 800, painted = [],
      liveTracks = {}, openContexts = {}, nextFrameId = 1, statusText = []\<rparr>"

definition constructor :: "environment \<Rightarrow> string option \<Rightarrow> real option \<Rightarrow> visualizer" where
  "constructor env savedVisualType savedSensitivity =
     loadUserPreferences savedVisualType savedSensitivity (setupCanvas env fields)"

subsection \<open>Example states\<close>

text \<open>
  A visualizer whose three buffers hold a single bin, and the canvas of 1000 by 600 pixels
  in mirrored-bars mode at sensitivity 1.
\<close>

definition one_bin :: visualizer where
  "one_bin = fields\<lparr>dataArray := [0], frequencyData := [0], smoothedFrequencyData := [0]\<rparr>"

definition canvas_1000x600 :: visualizer where
  "canvas_1000x600 =
     fields\<lparr>canvas_width := 1000, canvas_height := 600, visualType := ''frequency2x'',
            sensitivity := 1\<rparr>"

text \<open>
  The same canvas with the visualizer running, and a frame whose spectrum sample holds 200
  in each of the 128 bins.
\<close>

definition running_1000x600 :: visualizer where
  "running_1000x600 =
     canvas_1000x600\<lparr>isPlaying := True,
                     analyser := Some \<lparr>fftSize = 256, smoothingTimeConstant = 0.9\<rparr>\<rparr>"

definition frame_all_200 :: frame where
  "frame_all_200 =
     \<lparr>frame_timestamp = 1000, frame_now = 1000, frame_freq = replicate 128 200,
      frame_time = replicate 128 128, frame_random = (\<lambda>k. 0)\<rparr>"


text \<open>A desktop page whose container is 1240 pixels wide, in a window of 1920 by 1080.\<close>

definition desktop_page :: environment where
  "desktop_page = \<lparr>containerWidth = Some 1240, innerWidth = 1920, innerHeight = 1080\<rparr>"

text \<open>
  The one-bin visualizer on that page after a first starfield frame, in which every call
  of \<^verbatim>\<open>Math.random()\<close> returned 0.
\<close>

definition first_stars :: visualizer where
  "first_stars = drawStarlight (\<lambda>k. 0) (setupCanvas desktop_page one_bin)"

text \<open>
  The visualizer of that page, freshly constructed, after a desktop screen share was
  granted with the tracks 1 and 2 in the audio context 7, and after the microphone was
  granted with the track 1 in the audio context 7.
\<close>

definition sharing :: visualizer where
  "sharing = startScreenShare desktop_page False (Some [1, 2]) 7 (constructor desktop_page None None)"

definition listening :: visualizer where
  "listening = startMicrophone desktop_page (Some [1]) 7 (constructor desktop_page None None)"

section \<open>Properties\<close>

subsection \<open>The conditioner\<close>

lemma length_boost_loop: "length (boost_loop fd hs i bd) = length bd"
proof (induction fd hs i bd rule: boost_loop.induct)
  case (1 fd hs i bd)
  show ?case
  proof (cases "i < length fd")
    case True
    with 1 show ?thesis by (subst boost_loop.simps) simp
  next
    case False
    then show ?thesis by (subst boost_loop.simps) simp
  qed
qed

lemma boost_loop_nth:
  "length bd = length fd \<Longrightarrow> j < length fd \<Longrightarrow>
   boost_loop fd hs i bd ! j =
     (if i \<le> j then boost_value (length fd) hs j (byte_val (fd ! j)) else bd ! j)"
proof (induction fd hs i bd rule: boost_loop.induct)
  case (1 fd hs i bd)
  show ?case
  proof (cases "i < length fd")
    case True
    have "boost_loop fd hs i bd ! j =
          boost_loop fd hs (Suc i) (bd[i := boost_value (length fd) hs i (byte_val (fd ! i))]) ! j"
      using True by (subst boost_loop.simps) simp
    also have "\<dots> = (if Suc i \<le> j then boost_value (length fd) hs j (byte_val (fd ! j))
                      else bd[i := boost_value (length fd) hs i (byte_val (fd ! i))] ! j)"
      using 1 True by simp
    also have "\<dots> = (if i \<le> j then boost_value (length fd) hs j (byte_val (fd ! j)) else bd ! j)"
      using 1(2,3) True by (cases "i = j") auto
    finally show ?thesis .
  next
    case False
    with 1(3) show ?thesis by (subst boost_loop.simps) simp
  qed
qed

lemma smooth_loop_length: "length (smooth_loop n b i sm) = length sm"
proof (induction n b i sm rule: smooth_loop.induct)
  case (1 n b i sm)
  show ?case
  proof (cases "i < n")
    case True
    with 1 show ?thesis by (subst smooth_loop.simps) simp
  next
    case False
    then show ?thesis by (subst smooth_loop.simps) simp
  qed
qed

lemma smooth_loop_nth:
  "length sm = n \<Longrightarrow> j < n \<Longrightarrow>
   smooth_loop n b i sm ! j = (if i \<le> j then alpha * (b ! j) + (1 - alpha) * (sm ! j) else sm ! j)"
proof (induction n b i sm rule: smooth_loop.induct)
  case (1 n b i sm)
  show ?case
  proof (cases "i < n")
    case True
    have "smooth_loop n b i sm ! j =
          smooth_loop n b (Suc i) (sm[i := alpha * (b ! i) + (1 - alpha) * (sm ! i)]) ! j"
      using True by (subst smooth_loop.simps) simp
    also have "\<dots> = (if Suc i \<le> j
                      then alpha * (b ! j) + (1 - alpha) * (sm[i := alpha * (b ! i) + (1 - alpha) * (sm ! i)] ! j)
                      else sm[i := alpha * (b ! i) + (1 - alpha) * (sm ! i)] ! j)"
      using 1 True by simp
    also have "\<dots> = (if i \<le> j then alpha * (b ! j) + (1 - alpha) * (sm ! j) else sm ! j)"
      using 1(2,3) True by (cases "i = j") auto
    finally show ?thesis .
  next
    case False
    with 1(3) show ?thesis by (subst smooth_loop.simps) simp
  qed
qed

lemma highEndStart_div: "highEndStart n = (n * 3) div 5"
proof -
  have "real n * 0.6 = real (n * 3) / real 5" by simp
  then have "\<lfloor>real n * 0.6\<rfloor> = int ((n * 3) div 5)"
    by (simp only: floor_divide_of_nat_eq)
  then show ?thesis by (simp add: highEndStart_def)
qed


lemma applyHighEndBoost_nth:
  "i < length fd \<Longrightarrow>
   applyHighEndBoost fd ! i = boost_value (length fd) (highEndStart (length fd)) i (byte_val (fd ! i))"
  by (auto simp add: applyHighEndBoost_def boost_loop_nth)

lemma length_applyHighEndBoost: "length (applyHighEndBoost fd) = length fd"
  by (simp add: applyHighEndBoost_def length_boost_loop)



lemma boost_value_low: "i < hs \<Longrightarrow> boost_value n hs i v = v"
  by (simp add: boost_value_def)

lemma boost_value_high:
  "hs \<le> i \<Longrightarrow> boost_value n hs i v = min 255 (v * (1.5 + 0.8 * (real (i - hs) / real (n - hs))))" if "hs < n" "i < n"
proof -
  assume h: "hs \<le> i"
  have a: "real i - real hs = real (i - hs)" using h by simp
  have b: "real n - real hs = real (n - hs)" using that by simp
  have "(1::real) + (0.5 + real (i - hs) / real (n - hs) * 0.8) = 1.5 + 0.8 * (real (i - hs) / real (n - hs))"
    by simp
  then show ?thesis using h unfolding boost_value_def Let_def a b by simp
qed






lemma getByteData_same: "length f = length a \<Longrightarrow> getByteData f a = f"
  by (simp add: getByteData_def)

lemma length_getByteData: "length (getByteData f a) = max (length a) (min (length a) (length f))"
  by (simp add: getByteData_def)

lemma length_getByteData': "length (getByteData f a) = length a"
  by (simp add: getByteData_def)

lemma conditionSpectrum_frequencyData:
  "length (frequencyData (conditionSpectrum f t s)) = length (frequencyData s)"
  by (simp add: conditionSpectrum_def Let_def length_getByteData')

lemma conditionSpectrum_boosted:
  "0 < length (frequencyData s) \<Longrightarrow>
   boostedFrequencyData (conditionSpectrum f t s) =
     Some (applyHighEndBoost (getByteData f (frequencyData s)))"
  by (simp add: conditionSpectrum_def Let_def)

lemma conditionSpectrum_smoothed_length:
  "length (smoothedFrequencyData s) = length (frequencyData s) \<Longrightarrow>
   length (smoothedFrequencyData (conditionSpectrum f t s)) = length (frequencyData s)"
  by (simp add: conditionSpectrum_def Let_def length_getByteData' smooth_loop_length)

lemma conditionSpectrum_smoothed_nth:
  assumes "length (smoothedFrequencyData s) = length (frequencyData s)"
    and "i < length (frequencyData s)"
  shows "smoothedFrequencyData (conditionSpectrum f t s) ! i =
           alpha * (applyHighEndBoost (getByteData f (frequencyData s)) ! i)
           + (1 - alpha) * (smoothedFrequencyData s ! i)"
proof -
  have "frequencyData s \<noteq> []" using assms(2) by auto
  then show ?thesis using assms
    by (simp add: conditionSpectrum_def Let_def length_getByteData' smooth_loop_nth)
qed


lemma conditionFrames_length:
  "length (frequencyData (conditionFrames fs s)) = length (frequencyData s)"
  by (induction fs arbitrary: s) (auto simp: conditionSpectrum_frequencyData)

lemma conditionFrames_smoothed_length:
  "length (smoothedFrequencyData s) = length (frequencyData s) \<Longrightarrow>
   length (smoothedFrequencyData (conditionFrames fs s)) = length (frequencyData s)"
proof (induction fs arbitrary: s)
  case Nil
  then show ?case by simp
next
  case (Cons a fs)
  obtain f t where a: "a = (f, t)" by (cases a)
  have "length (smoothedFrequencyData (conditionSpectrum f t s))
        = length (frequencyData (conditionSpectrum f t s))"
    using Cons.prems by (simp add: conditionSpectrum_smoothed_length conditionSpectrum_frequencyData)
  from Cons.IH[OF this] show ?case by (simp add: a conditionSpectrum_frequencyData)
qed





lemma conditionSpectrum_mode_data:
  "frequencyData s \<noteq> [] \<Longrightarrow>
   mode_data (conditionSpectrum f t s) = applyHighEndBoost (frequencyData (conditionSpectrum f t s))"
  by (simp add: mode_data_def conditionSpectrum_def Let_def)

lemma conditionSpectrum_retroBox_data:
  "frequencyData s \<noteq> [] \<Longrightarrow>
   retroBox_data (conditionSpectrum f t s) = applyHighEndBoost (frequencyData (conditionSpectrum f t s))"
  by (simp add: retroBox_data_def conditionSpectrum_def Let_def)



lemma conditionSpectrum_unchanged:
  "sensitivity (conditionSpectrum f t s) = sensitivity s"
  "canvas_width (conditionSpectrum f t s) = canvas_width s"
  "canvas_height (conditionSpectrum f t s) = canvas_height s"
  "visualType (conditionSpectrum f t s) = visualType s"
  "raindrops (conditionSpectrum f t s) = raindrops s"
  "painted (conditionSpectrum f t s) = painted s"
  "starPositions (conditionSpectrum f t s) = starPositions s"
  "lastCanvasSize (conditionSpectrum f t s) = lastCanvasSize s"
  by (simp_all add: conditionSpectrum_def Let_def)

lemma conditionSpectrum_raw:
  "frequencyData (conditionSpectrum f t s) =
     (if frequencyData s = [] then [] else getByteData f (frequencyData s))"
  by (simp add: conditionSpectrum_def Let_def)

lemma one_bin_fields:
  "frequencyData one_bin = [0]"
  "smoothedFrequencyData one_bin = [0]"
  "sensitivity one_bin = 1"
  "canvas_width one_bin = 1400"
  "canvas_height one_bin = 800"
  by (simp_all add: one_bin_def fields_def)

lemma boost_one_bin: "applyHighEndBoost [100] = [150]"
  by (simp add: applyHighEndBoost_def boost_loop.simps boost_value_def highEndStart_div byte_val_def)

lemma one_bin_frame:
  "mode_data (conditionSpectrum [100] [0] one_bin) = [150]"
  "retroBox_data (conditionSpectrum [100] [0] one_bin) = [150]"
  "smoothedFrequencyData (conditionSpectrum [100] [0] one_bin) ! 0 = 45 / 2"
    by (simp_all add: conditionSpectrum_mode_data conditionSpectrum_retroBox_data
        conditionSpectrum_raw one_bin_fields getByteData_def boost_one_bin
        conditionSpectrum_smoothed_nth alpha_def)



lemma retroBox_data_update:
  "retroBox_data (s\<lparr>sensitivity := v\<rparr>) = retroBox_data s"
  "retroBox_data (s\<lparr>painted := p\<rparr>) = retroBox_data s"
  by (simp_all add: retroBox_data_def split: option.split)

lemma retroBox_maxBars_update:
  "retroBox_maxBars (s\<lparr>sensitivity := v\<rparr>) = retroBox_maxBars s"
  "retroBox_maxBars (s\<lparr>painted := p\<rparr>) = retroBox_maxBars s"
  by (simp_all add: retroBox_maxBars_def)

lemma retroBox_value_update:
  "retroBox_value (s\<lparr>sensitivity := v\<rparr>) i = retroBox_value s i"
  "retroBox_value (s\<lparr>painted := p\<rparr>) i = retroBox_value s i"
  unfolding retroBox_value_def retroBox_data_update retroBox_maxBars_update by (rule refl)+

lemma retroBox_barLength_update:
  "retroBox_barLength (s\<lparr>sensitivity := v\<rparr>) i = retroBox_barLength s i"
  "retroBox_barLength (s\<lparr>painted := p\<rparr>) i = retroBox_barLength s i"
  unfolding retroBox_barLength_def retroBox_value_update by simp_all

lemma retroBox_at_update:
  "retroBox_at now (s\<lparr>sensitivity := v\<rparr>) = retroBox_at now s"
  "retroBox_at now (s\<lparr>painted := p\<rparr>) = retroBox_at now s"
  unfolding retroBox_at_def retroBox_barLength_update by simp_all

lemma drawRetroBox_sensitivity:
  "painted (drawRetroBox now (s\<lparr>sensitivity := v\<rparr>)) = painted (drawRetroBox now s)"
  unfolding drawRetroBox_def Let_def paint_ops_def
    retroBox_at_update retroBox_data_update retroBox_maxBars_update
  by simp

lemma mode_data_update:
  "mode_data (s\<lparr>sensitivity := v\<rparr>) = mode_data s"
  "mode_data (s\<lparr>painted := p\<rparr>) = mode_data s"
  by (simp_all add: mode_data_def split: option.split)

text \<open>
  Claim C4 at a failing input: one bin, raw value 100, canvas height 800. The bar of the
  retro equalizer has the same length at sensitivity 1 and at sensitivity 2, while the
  value of the bar modes doubles.
\<close>

theorem retroBox_ignores_sensitivity:
  "retroBox_barLength ((conditionSpectrum [100] [0] one_bin)\<lparr>sensitivity := 1\<rparr>) 0 = 4010 / 17
   \<and> retroBox_barLength ((conditionSpectrum [100] [0] one_bin)\<lparr>sensitivity := 2\<rparr>) 0 = 4010 / 17
   \<and> bar_value ((conditionSpectrum [100] [0] one_bin)\<lparr>sensitivity := 1\<rparr>) 0 = 150
   \<and> bar_value ((conditionSpectrum [100] [0] one_bin)\<lparr>sensitivity := 2\<rparr>) 0 = 300"
proof -
  have m: "\<And>v. mode_data ((conditionSpectrum [100] [0] one_bin)\<lparr>sensitivity := v\<rparr>) = [150]"
    by (simp add: mode_data_update one_bin_frame)
  have l: "retroBox_barLength (conditionSpectrum [100] [0] one_bin) 0 = 4010 / 17"
    by (simp add: retroBox_barLength_def retroBox_value_def retroBox_maxBars_def one_bin_frame
        conditionSpectrum_unchanged one_bin_fields)
  show ?thesis
    by (simp add: retroBox_barLength_update l bar_value_def m)
qed

lemma boost_all_200:
  assumes "i < 128"
  shows "applyHighEndBoost (replicate 128 200) ! i = (if i < 76 then 200 else 255)"
proof -
  have hs: "highEndStart 128 = 76" by (simp add: highEndStart_div)
  have v: "byte_val (200 :: byte) = 200" by (simp add: byte_val_def)
  have b: "applyHighEndBoost (replicate 128 200) ! i = boost_value 128 76 i 200"
    using assms applyHighEndBoost_nth[of i "replicate 128 200"] by (simp add: hs v)
  show ?thesis
  proof (cases "i < 76")
    case True
    then show ?thesis by (simp add: b boost_value_low)
  next
    case False
    then have h: "76 \<le> i" by simp
    define x :: real where "x = 0.8 * (real (i - 76) / real (128 - 76 :: nat))"
    have "boost_value 128 76 i 200 = min 255 (200 * (1.5 + x))"
      using boost_value_high[of 76 128 i 200] assms h by (simp add: x_def)
    moreover have "0 \<le> x" by (simp add: x_def)
    then have "(255::real) \<le> 200 * (1.5 + x)" by simp
    ultimately have "boost_value 128 76 i 200 = 255" by simp
    then show ?thesis using False by (simp add: b)
  qed
qed

lemma requestAnimationFrame_painted: "painted (requestAnimationFrame s) = painted s"
  by (simp add: requestAnimationFrame_def)

lemma animate_runs:
  assumes "isPlaying s" "analyser s \<noteq> None" "lastFrameTime s = 0"
  shows "animate f s =
    requestAnimationFrame
      (draw f (conditionSpectrum (frame_freq f) (frame_time f) (s\<lparr>lastFrameTime := frame_timestamp f\<rparr>)))"
  using assms by (auto simp add: animate_def Let_def)

lemma draw_frequency2x:
  "visualType s = ''frequency2x'' \<Longrightarrow> draw f s = drawFrequencyBars2x (s\<lparr>painted := []\<rparr>)"
  by (simp add: draw_def Let_def)

lemma drawFrequencyBars2x_painted:
  "frequencyData s \<noteq> [] \<Longrightarrow>
   painted (drawFrequencyBars2x s) = painted s @ concat (map (bars2x_at s) [0..<length (mode_data s)])"
  by (simp add: drawFrequencyBars2x_def paint_ops_def)

lemma bars2x_at_cong:
  "mode_data s = mode_data s' \<Longrightarrow> canvas_width s = canvas_width s' \<Longrightarrow>
   canvas_height s = canvas_height s' \<Longrightarrow> sensitivity s = sensitivity s' \<Longrightarrow>
   bars2x_at s = bars2x_at s'"
  by (rule ext) (simp only: bars2x_at_def bar_value_def Let_def)

lemma bars2x_at_painted: "bars2x_at (s\<lparr>painted := p\<rparr>) = bars2x_at s"
  by (rule bars2x_at_cong) (simp_all add: mode_data_update)


lemma bars2x_all_200:
  assumes "canvas_width s = 1000" "canvas_height s = 600" "sensitivity s = 1"
    and "mode_data s = applyHighEndBoost (replicate 128 200)" "i < 128"
  shows "bars2x_at s i =
    [drawRoundedBarFlat (171 / 64) (500 + real i * (125 / 32) - 5 / 2)
       (600 - (if i < 76 then 6400 / 17 else 480)) (285 / 32)
       (if i < 76 then 6400 / 17 else 480) (if i < 76 then 200 else 255),
     drawRoundedBarFlat (171 / 64) (500 - (real i + 1) * (125 / 32) - 5 / 2)
       (600 - (if i < 76 then 6400 / 17 else 480)) (285 / 32)
       (if i < 76 then 6400 / 17 else 480) (if i < 76 then 200 else 255)]"
proof -
  have v: "bar_value s i = (if i < 76 then 200 else 255)"
    using boost_all_200[OF assms(5)] by (simp add: bar_value_def assms(3,4))
  have n: "length (mode_data s) = 128" by (simp add: assms(4) length_applyHighEndBoost)
  show ?thesis
    unfolding bars2x_at_def Let_def v n assms(1,2)
    by (simp add: field_simps)
qed

lemma frame_2x_painted:
  assumes "canvas_width s = 1000" "canvas_height s = 600" "sensitivity s = 1"
    and "visualType s = ''frequency2x''" "isPlaying s" "analyser s \<noteq> None"
    and "lastFrameTime s = 0" "length (frequencyData s) = 128"
    and "frame_freq f = replicate 128 200"
  shows "painted (animate f s) =
    concat (map (\<lambda>i.
      [drawRoundedBarFlat (171 / 64) (500 + real i * (125 / 32) - 5 / 2)
         (600 - (if i < 76 then 6400 / 17 else 480)) (285 / 32)
         (if i < 76 then 6400 / 17 else 480) (if i < 76 then 200 else 255),
       drawRoundedBarFlat (171 / 64) (500 - (real i + 1) * (125 / 32) - 5 / 2)
         (600 - (if i < 76 then 6400 / 17 else 480)) (285 / 32)
         (if i < 76 then 6400 / 17 else 480) (if i < 76 then 200 else 255)]) [0..<128])"
proof -
  let ?s1 = "s\<lparr>lastFrameTime := frame_timestamp f\<rparr>"
  let ?s2 = "conditionSpectrum (frame_freq f) (frame_time f) ?s1"
  have ne: "frequencyData ?s1 \<noteq> []" using assms(8) by auto
  have fd: "frequencyData ?s2 = replicate 128 200"
    using ne assms(8,9) by (simp add: conditionSpectrum_raw getByteData_same)
  have md: "mode_data ?s2 = applyHighEndBoost (replicate 128 200)"
    using conditionSpectrum_mode_data[OF ne] by (simp only: fd)
  have cw: "canvas_width ?s2 = 1000" and ch: "canvas_height ?s2 = 600"
    and se: "sensitivity ?s2 = 1" and vt: "visualType ?s2 = ''frequency2x''"
    and pa: "painted ?s2 = painted s"
    using assms(1-4) by (simp_all add: conditionSpectrum_unchanged)
  have n: "length (mode_data ?s2) = 128" by (simp add: md length_applyHighEndBoost)
  have "painted (animate f s) = painted (draw f ?s2)"
    using assms(5-7) by (simp add: animate_runs requestAnimationFrame_painted)
  also have "\<dots> = painted (drawFrequencyBars2x (?s2\<lparr>painted := []\<rparr>))"
    using vt by (simp only: draw_frequency2x)
  also have "\<dots> = concat (map (bars2x_at ?s2) [0..<128])"
    using fd by (simp add: drawFrequencyBars2x_painted bars2x_at_painted mode_data_update n)
  also have "\<dots> = concat (map (\<lambda>i.
      [drawRoundedBarFlat (171 / 64) (500 + real i * (125 / 32) - 5 / 2)
         (600 - (if i < 76 then 6400 / 17 else 480)) (285 / 32)
         (if i < 76 then 6400 / 17 else 480) (if i < 76 then 200 else 255),
       drawRoundedBarFlat (171 / 64) (500 - (real i + 1) * (125 / 32) - 5 / 2)
         (600 - (if i < 76 then 6400 / 17 else 480)) (285 / 32)
         (if i < 76 then 6400 / 17 else 480) (if i < 76 then 200 else 255)]) [0..<128])"
    by (rule arg_cong[where f = concat], rule map_cong[OF refl])
       (simp add: bars2x_all_200[OF cw ch se md])
  finally show ?thesis .
qed


lemma concat_pairs_nth:
  "i < n \<Longrightarrow> concat (map (\<lambda>k. [a k, b k]) [0..<n]) ! (2 * i) = a i
             \<and> concat (map (\<lambda>k. [a k, b k]) [0..<n]) ! (2 * i + 1) = b i"
proof (induction n)
  case 0
  then show ?case by simp
next
  case (Suc n)
  have len: "length (concat (map (\<lambda>k. [a k, b k]) [0..<n])) = 2 * n"
    by (induction n) simp_all
  show ?case
  proof (cases "i < n")
    case True
    then have "2 * i < 2 * n" and "2 * i + 1 < 2 * n" by simp_all
    then show ?thesis using Suc.IH[OF True] by (simp add: nth_append len)
  next
    case False
    with Suc.prems have "i = n" by simp
    then show ?thesis by (simp add: nth_append len)
  qed
qed

lemma running_fields:
  "canvas_width running_1000x600 = 1000" "canvas_height running_1000x600 = 600"
  "sensitivity running_1000x600 = 1" "visualType running_1000x600 = ''frequency2x''"
  "isPlaying running_1000x600" "analyser running_1000x600 \<noteq> None"
  "lastFrameTime running_1000x600 = 0" "length (frequencyData running_1000x600) = 128"
  "frame_freq frame_all_200 = replicate 128 200"
  by (simp_all add: running_1000x600_def canvas_1000x600_def fields_def frame_all_200_def)

text \<open>
  Claim C5, as amended. A running visualizer in mirrored-bars mode at sensitivity 1 on a
  canvas of 1000 by 600 pixels receives a frame whose 128 bins all hold 200. The frame
  paints, for each bin, a right and a left bar of width 285/32 from the bottom edge: of
  height \<open>(200 / 255) \<times> 0.8 \<times> 600 = 6400 / 17\<close> (about 376) for the bins below 76, and
  of height \<open>0.8 \<times> 600 = 480\<close> for the bins from 76 on, where the boost raises 200 to
  the clamp 255. The right edge of each left bar is the mirror image, about \<open>x = 500\<close>, of
  the left edge of its right bar.
\<close>

theorem mirrored_bars_all_200:
  assumes "canvas_width s = 1000" "canvas_height s = 600" "sensitivity s = 1"
    and "visualType s = ''frequency2x''" "isPlaying s" "analyser s \<noteq> None"
    and "lastFrameTime s = 0" "length (frequencyData s) = 128"
    and "frame_freq f = replicate 128 200"
  shows "painted (animate f s) =
    concat (map (\<lambda>i.
      [drawRoundedBarFlat (171 / 64) (500 + real i * (125 / 32) - 5 / 2)
         (600 - (if i < 76 then 6400 / 17 else 480)) (285 / 32)
         (if i < 76 then 6400 / 17 else 480) (if i < 76 then 200 else 255),
       drawRoundedBarFlat (171 / 64) (500 - (real i + 1) * (125 / 32) - 5 / 2)
         (600 - (if i < 76 then 6400 / 17 else 480)) (285 / 32)
         (if i < 76 then 6400 / 17 else 480) (if i < 76 then 200 else 255)]) [0..<128])
    \<and> (6400 / 17 :: real) = (200 / 255) * 0.8 * 600
    \<and> (\<forall>i. (500 - (real i + 1) * (125 / 32) - 5 / 2) + 285 / 32
             = 1000 - (500 + real i * (125 / 32) - 5 / 2))"
  using frame_2x_painted[OF assms] by (simp add: field_simps)

text \<open>
  A witness for C5 as amended: the running example state and the frame of 200s.
\<close>

theorem mirrored_bars_all_200_witness:
  "canvas_width running_1000x600 = 1000 \<and> canvas_height running_1000x600 = 600
   \<and> sensitivity running_1000x600 = 1 \<and> visualType running_1000x600 = ''frequency2x''
   \<and> isPlaying running_1000x600 \<and> analyser running_1000x600 \<noteq> None
   \<and> lastFrameTime running_1000x600 = 0 \<and> length (frequencyData running_1000x600) = 128
   \<and> frame_freq frame_all_200 = replicate 128 200
   \<and> painted (animate frame_all_200 running_1000x600) =
    concat (map (\<lambda>i.
      [drawRoundedBarFlat (171 / 64) (500 + real i * (125 / 32) - 5 / 2)
         (600 - (if i < 76 then 6400 / 17 else 480)) (285 / 32)
         (if i < 76 then 6400 / 17 else 480) (if i < 76 then 200 else 255),
       drawRoundedBarFlat (171 / 64) (500 - (real i + 1) * (125 / 32) - 5 / 2)
         (600 - (if i < 76 then 6400 / 17 else 480)) (285 / 32)
         (if i < 76 then 6400 / 17 else 480) (if i < 76 then 200 else 255)]) [0..<128])"
  using mirrored_bars_all_200[OF running_fields] running_fields by blast

text \<open>
  Claim C5 as stated fails: in that frame the right bar of bin 127 (operation 254 of the
  frame) has height 480, not \<open>(200 / 255) \<times> 0.8 \<times> 600\<close>.
\<close>

theorem bars_same_height_counterexample:
  "painted (animate frame_all_200 running_1000x600) ! 254
     = drawRoundedBarFlat (171 / 64) (500 + 127 * (125 / 32) - 5 / 2) 120 (285 / 32) 480 255
   \<and> (480 :: real) \<noteq> (200 / 255) * 0.8 * 600"
proof -
  have "painted (animate frame_all_200 running_1000x600) ! (2 * 127)
     = drawRoundedBarFlat (171 / 64) (500 + real (127::nat) * (125 / 32) - 5 / 2)
         (600 - (if (127::nat) < 76 then 6400 / 17 else 480)) (285 / 32)
         (if (127::nat) < 76 then 6400 / 17 else 480) (if (127::nat) < 76 then 200 else 255)"
    unfolding frame_2x_painted[OF running_fields]
    by (rule concat_pairs_nth[THEN conjunct1]) simp
  then show ?thesis by simp
qed

lemma update_loop_append:
  "update_loop h (length xs) (xs @ ys) = filter (\<lambda>r. \<not> gone h r) (map fall xs) @ ys"
proof (induction xs arbitrary: ys rule: rev_induct)
  case Nil
  then show ?case by simp
next
  case (snoc x xs)
  have n: "(xs @ [x] @ ys) ! length xs = x" by (simp add: nth_append)
  have u: "(xs @ [x] @ ys)[length xs := fall x] = xs @ [fall x] @ ys"
    by (simp add: list_update_append)
  show ?case
  proof (cases "gone h (fall x)")
    case True
    then have "update_loop h (length (xs @ [x])) ((xs @ [x]) @ ys) = update_loop h (length xs) (xs @ ys)"
      using n u by (simp add: Let_def)
    then show ?thesis using True snoc.IH[of ys] by simp
  next
    case False
    then have "update_loop h (length (xs @ [x])) ((xs @ [x]) @ ys)
               = update_loop h (length xs) (xs @ (fall x # ys))"
      using n u by (simp add: Let_def)
    then show ?thesis using False snoc.IH[of "fall x # ys"] by simp
  qed
qed

lemma update_loop_filter:
  "update_loop h (length rs) rs = filter (\<lambda>r. \<not> gone h r) (map fall rs)"
  using update_loop_append[of h rs "[]"] by simp

lemma update_cycles_append:
  "update_cycles n h (xs @ ys) = update_cycles n h xs @ update_cycles n h ys"
proof (induction n arbitrary: xs ys)
  case 0
  then show ?case by simp
next
  case (Suc n)
  have "update_loop h (length (xs @ ys)) (xs @ ys)
        = update_loop h (length xs) xs @ update_loop h (length ys) ys"
    by (simp only: update_loop_filter map_append filter_append)
  then show ?case by (simp only: update_cycles.simps Suc.IH)
qed

lemma update_cycles_Suc:
  "update_cycles (Suc n) h rs
     = update_loop h (length (update_cycles n h rs)) (update_cycles n h rs)"
proof (induction n arbitrary: rs)
  case 0
  then show ?case by simp
next
  case (Suc n)
  have "update_cycles (Suc (Suc n)) h rs = update_cycles (Suc n) h (update_loop h (length rs) rs)"
    by simp
  also have "\<dots> = update_loop h (length (update_cycles n h (update_loop h (length rs) rs)))
                       (update_cycles n h (update_loop h (length rs) rs))"
    by (rule Suc.IH)
  finally show ?case by simp
qed

lemma update_loop_single:
  "update_loop h (length [x]) [x] = (if gone h (fall x) then [] else [fall x])"
  by (simp only: update_loop_filter) simp

lemma survives:
  assumes "drop_alpha r = 0.8" "n < 160"
    and "\<forall>k<160. drop_y r + real k * drop_speed r \<le> h"
  shows "update_cycles n h [r]
           = [r\<lparr>drop_y := drop_y r + real n * drop_speed r, drop_alpha := 0.8 - real n * 0.005\<rparr>]"
  using assms(2)
proof (induction n)
  case 0
  then show ?case using assms(1) by simp
next
  case (Suc n)
  let ?rn = "r\<lparr>drop_y := drop_y r + real n * drop_speed r, drop_alpha := 0.8 - real n * 0.005\<rparr>"
  have prev: "update_cycles n h [r] = [?rn]" using Suc by simp
  have f: "fall ?rn = r\<lparr>drop_y := drop_y r + real (Suc n) * drop_speed r,
                        drop_alpha := 0.8 - real (Suc n) * 0.005\<rparr>"
  proof -
    have a1: "(0.8 - real n * 0.005) - 0.005 = 0.8 - real (Suc n) * (0.005::real)"
      by (simp add: field_simps)
    have y1: "(drop_y r + real n * drop_speed r) + drop_speed r = drop_y r + real (Suc n) * drop_speed r"
      by (simp add: algebra_simps)
    have "fall ?rn = r\<lparr>drop_y := (drop_y r + real n * drop_speed r) + drop_speed r,
                          drop_alpha := (0.8 - real n * 0.005) - 0.005\<rparr>"
      by (simp add: fall_def Let_def)
    then show ?thesis by (simp only: a1 y1)
  qed
  have y: "drop_y r + real (Suc n) * drop_speed r \<le> h" using assms(3) Suc.prems by blast
  have "real (Suc n) < 160" using Suc.prems by simp
  then have a: "0.8 - real (Suc n) * 0.005 > (0::real)" by simp
  have "update_cycles (Suc n) h [r] = update_loop h (length [?rn]) [?rn]"
    by (simp only: update_cycles_Suc prev)
  also have "\<dots> = [fall ?rn]"
  proof -
    have "\<not> gone h (fall ?rn)" using y a by (simp only: f gone_def) simp
    then show ?thesis by (simp only: update_loop_single if_False)
  qed
  finally show ?case by (simp only: f)
qed

lemma destroyed:
  assumes "drop_alpha r = 0.8"
    and "\<forall>k<160. drop_y r + real k * drop_speed r \<le> h"
  shows "update_cycles 160 h [r] = []"
proof -
  let ?rn = "r\<lparr>drop_y := drop_y r + real (159::nat) * drop_speed r,
                  drop_alpha := 0.8 - real (159::nat) * 0.005\<rparr>"
  have prev: "update_cycles 159 h [r] = [?rn]"
    using survives[OF assms(1) _ assms(2), of 159] by simp
  have "drop_alpha (fall ?rn) = 0" by (simp add: fall_def Let_def)
  then have "gone h (fall ?rn)" by (simp add: gone_def)
  then have "update_loop h (length [?rn]) [?rn] = []"
    by (simp only: update_loop_single if_True)
  moreover have "update_cycles 160 h [r] = update_loop h (length [?rn]) [?rn]"
    using update_cycles_Suc[of 159 h "[r]"] by (simp only: prev) simp
  ultimately show ?thesis by simp
qed


lemma update_cycles_Nil: "update_cycles n h [] = []"
  by (induction n) simp_all

lemma updateRaindrops_filter:
  "raindrops (updateRaindrops s)
     = filter (\<lambda>r. \<not> gone (real (canvas_height s)) r) (map fall (raindrops s))"
  by (simp add: updateRaindrops_def update_loop_filter)

text \<open>
  Claim C6. \<^verbatim>\<open>createRaindrop\<close> appends a raindrop of alpha 0.8 and speed
  \<open>1.5 + (value / 255) \<times> 2.5\<close>; an update moves a raindrop down by its speed and lowers
  its alpha by 0.005; \<^verbatim>\<open>updateRaindrops\<close> keeps exactly the updated raindrops that are
  neither below the canvas height nor of alpha \<open>\<le> 0\<close>. If the new raindrop stays within
  the canvas height \<open>h\<close> during its life, it is in the store, at the end, after each of
  the first 159 update cycles, and the store after 160 cycles is the one that the older
  raindrops leave: the raindrop is destroyed by the 160th cycle.
\<close>

theorem raindrop_lifecycle:
  assumes "\<forall>k<160. y + height + real k * (1.5 + (value / 255) * 2.5) \<le> h"
  shows "raindrops (createRaindrop x y width height value s)
           = raindrops s @
             [\<lparr>drop_x = x + width / 2, drop_y = y + height, drop_width = max 1 (width * 0.3),
               drop_height = max 2 (height * 0.1), drop_speed = 1.5 + (value / 255) * 2.5,
               drop_alpha = 0.8, drop_value = value\<rparr>]
    \<and> fall r = r\<lparr>drop_y := drop_y r + drop_speed r, drop_alpha := drop_alpha r - 0.005\<rparr>
    \<and> raindrops (updateRaindrops s)
          = filter (\<lambda>r. \<not> (drop_y r > real (canvas_height s) \<or> drop_alpha r \<le> 0))
              (map fall (raindrops s))
    \<and> (\<forall>n<160.
          update_cycles n h (raindrops (createRaindrop x y width height value s))
            = update_cycles n h (raindrops s) @
              [\<lparr>drop_x = x + width / 2,
                drop_y = y + height + real n * (1.5 + (value / 255) * 2.5),
                drop_width = max 1 (width * 0.3), drop_height = max 2 (height * 0.1),
                drop_speed = 1.5 + (value / 255) * 2.5,
                drop_alpha = 0.8 - real n * 0.005, drop_value = value\<rparr>])
    \<and> update_cycles 160 h (raindrops (createRaindrop x y width height value s))
          = update_cycles 160 h (raindrops s)"
proof -
  let ?r0 = "\<lparr>drop_x = x + width / 2, drop_y = y + height, drop_width = max 1 (width * 0.3),
               drop_height = max 2 (height * 0.1), drop_speed = 1.5 + (value / 255) * 2.5,
               drop_alpha = 0.8, drop_value = value\<rparr>"
  have created: "raindrops (createRaindrop x y width height value s) = raindrops s @ [?r0]"
    by (simp add: createRaindrop_def)
  have falls: "fall r = r\<lparr>drop_y := drop_y r + drop_speed r, drop_alpha := drop_alpha r - 0.005\<rparr>"
    by (simp add: fall_def Let_def)
  have upd: "raindrops (updateRaindrops s)
          = filter (\<lambda>r. \<not> (drop_y r > real (canvas_height s) \<or> drop_alpha r \<le> 0))
              (map fall (raindrops s))"
    by (simp add: updateRaindrops_filter gone_def)
  have a0: "drop_alpha ?r0 = 0.8" by simp
  have inside: "\<forall>k<160. drop_y ?r0 + real k * drop_speed ?r0 \<le> h" using assms by simp
  have alive: "\<forall>n<160.
          update_cycles n h (raindrops (createRaindrop x y width height value s))
            = update_cycles n h (raindrops s) @
              [\<lparr>drop_x = x + width / 2,
                drop_y = y + height + real n * (1.5 + (value / 255) * 2.5),
                drop_width = max 1 (width * 0.3), drop_height = max 2 (height * 0.1),
                drop_speed = 1.5 + (value / 255) * 2.5,
                drop_alpha = 0.8 - real n * 0.005, drop_value = value\<rparr>]"
  proof (intro allI impI)
    fix n :: nat assume n: "n < 160"
    have "update_cycles n h [?r0]
          = [?r0\<lparr>drop_y := drop_y ?r0 + real n * drop_speed ?r0, drop_alpha := 0.8 - real n * 0.005\<rparr>]"
      using a0 n inside by (rule survives)
    then show "update_cycles n h (raindrops (createRaindrop x y width height value s))
            = update_cycles n h (raindrops s) @
              [\<lparr>drop_x = x + width / 2,
                drop_y = y + height + real n * (1.5 + (value / 255) * 2.5),
                drop_width = max 1 (width * 0.3), drop_height = max 2 (height * 0.1),
                drop_speed = 1.5 + (value / 255) * 2.5,
                drop_alpha = 0.8 - real n * 0.005, drop_value = value\<rparr>]"
      by (simp add: created update_cycles_append)
  qed
  have dead: "update_cycles 160 h (raindrops (createRaindrop x y width height value s))
          = update_cycles 160 h (raindrops s)"
    using destroyed[OF a0 inside] by (simp only: created update_cycles_append append_Nil2)
  from created falls upd alive dead show ?thesis by blast
qed

text \<open>
  A witness for C6: a raindrop of value 255 created below a bar of height 20 on a canvas
  of height 800 falls 4 pixels per cycle; after 159 cycles it is at 656 with alpha 0.005,
  after 160 cycles the store is empty.
\<close>

theorem raindrop_lifecycle_witness:
  "(0::real) + 20 + real (159::nat) * (1.5 + (255 / 255) * 2.5) \<le> 800
   \<and> update_cycles 159 800 (raindrops (createRaindrop 0 0 10 20 255 fields))
       = [\<lparr>drop_x = 5, drop_y = 656, drop_width = 3, drop_height = 2, drop_speed = 4,
           drop_alpha = 0.005, drop_value = 255\<rparr>]
   \<and> update_cycles 160 800 (raindrops (createRaindrop 0 0 10 20 255 fields)) = []"
proof -
  have h: "\<forall>k<160. (0::real) + 20 + real k * (1.5 + (255 / 255) * 2.5) \<le> 800" by simp
  have r: "raindrops fields = []" by (simp add: fields_def)
  note t = raindrop_lifecycle[OF h, of 0 10 fields]
  have alive: "update_cycles 159 800 (raindrops (createRaindrop 0 0 10 20 255 fields))
       = [\<lparr>drop_x = 5, drop_y = 656, drop_width = 3, drop_height = 2, drop_speed = 4,
           drop_alpha = 0.005, drop_value = 255\<rparr>]"
    using t[THEN conjunct2, THEN conjunct2, THEN conjunct2, THEN conjunct1, rule_format, of 159]
    by (simp add: r update_cycles_Nil)
  have dead: "update_cycles 160 800 (raindrops (createRaindrop 0 0 10 20 255 fields)) = []"
    using t[THEN conjunct2, THEN conjunct2, THEN conjunct2, THEN conjunct2]
    by (simp add: r update_cycles_Nil)
  from alive dead show ?thesis by simp
qed





lemma place_star_kept:
  "attempts < 100 \<Longrightarrow>
   (\<exists>k'. fst (place_star rnd w h stars k attempts) = attempt rnd w h k'
         \<and> snd (place_star rnd w h stars k attempts) = k' + 3
         \<and> k \<le> k' \<and> k' \<le> k + 3 * (99 - attempts)
         \<and> (isOverlapping stars (star_x (attempt rnd w h k')) (star_y (attempt rnd w h k'))
                (star_size (attempt rnd w h k'))
              \<longrightarrow> k' = k + 3 * (99 - attempts)))"
proof (induction rnd w h stars k attempts rule: place_star.induct)
  case (1 rnd w h stars k attempts)
  show ?case
  proof (cases "isOverlapping stars (star_x (attempt rnd w h k)) (star_y (attempt rnd w h k))
           (star_size (attempt rnd w h k)) \<and> Suc attempts < 100")
    case True
    then have a: "Suc attempts < 100" by simp
    from "1.IH"[OF True a] obtain k' where
      k': "fst (place_star rnd w h stars (k + 3) (Suc attempts)) = attempt rnd w h k'"
        "snd (place_star rnd w h stars (k + 3) (Suc attempts)) = k' + 3"
        "k + 3 \<le> k'" "k' \<le> k + 3 + 3 * (99 - Suc attempts)"
        "isOverlapping stars (star_x (attempt rnd w h k')) (star_y (attempt rnd w h k'))
                (star_size (attempt rnd w h k'))
              \<longrightarrow> k' = k + 3 + 3 * (99 - Suc attempts)"
      by blast
    have step: "place_star rnd w h stars k attempts = place_star rnd w h stars (k + 3) (Suc attempts)"
      using True by (subst place_star.simps) simp
    have e: "k + 3 + 3 * (99 - Suc attempts) = k + 3 * (99 - attempts)" using a by simp
    show ?thesis using k' by (simp only: step e) (rule exI[of _ k'], simp)
  next
    case False
    have stop: "place_star rnd w h stars k attempts = (attempt rnd w h k, k + 3)"
      using False by (subst place_star.simps) auto
    have "isOverlapping stars (star_x (attempt rnd w h k)) (star_y (attempt rnd w h k))
           (star_size (attempt rnd w h k)) \<longrightarrow> k = k + 3 * (99 - attempts)"
      using False "1.prems" by auto
    then show ?thesis by (simp only: stop) (rule exI[of _ k], simp)
  qed
qed


lemma paint_ops_fields:
  "starPositions (paint_ops ops s) = starPositions s"
  "starSizes (paint_ops ops s) = starSizes s"
  "lastCanvasSize (paint_ops ops s) = lastCanvasSize s"
  "raindrops (paint_ops ops s) = raindrops s"
  "canvas_width (paint_ops ops s) = canvas_width s"
  "canvas_height (paint_ops ops s) = canvas_height s"
  by (simp_all add: paint_ops_def)

lemma drawStarlight_regenerates:
  assumes "frequencyData s \<noteq> []"
    and "starPositions s = None \<or> strict_neq_string (lastCanvasSize s) (canvas_width s, canvas_height s)"
  shows "starPositions (drawStarlight rnd s)
           = Some (generate_stars rnd (real (canvas_width s)) (real (canvas_height s))
                     (min (length (mode_data s)) 128) 0 [])"
    and "lastCanvasSize (drawStarlight rnd s) = Some (SizeString (canvas_width s) (canvas_height s))"
  using assms by (auto simp add: drawStarlight_def Let_def paint_ops_fields)

lemma drawStarlight_keeps:
  assumes "starPositions s = Some stars"
    and "lastCanvasSize s = Some (SizeString (canvas_width s) (canvas_height s))"
  shows "starPositions (drawStarlight rnd s) = Some stars"
  using assms by (simp add: drawStarlight_def Let_def paint_ops_fields)



lemma sqrt_less_pos: "0 \<le> b \<Longrightarrow> sqrt a < b \<longleftrightarrow> a < b\<^sup>2"
  by (metis real_sqrt_less_iff real_sqrt_abs abs_of_nonneg)




















lemma raindrops_updateStatus: "raindrops (updateStatus m s) = raindrops s"
  by (simp add: updateStatus_def)







lemma raindrops_stopVisualizer: "raindrops (stopVisualizer s) = []"
  by (simp add: stopVisualizer_def Let_def raindrops_updateStatus)


lemma createRaindrop_fields:
  "canvas_height (createRaindrop x y w h v s) = canvas_height s"
  "\<exists>new. raindrops (createRaindrop x y w h v s) = raindrops s @ new"
  by (simp_all add: createRaindrop_def)








lemma setupCanvas_desktop_page:
  "setupCanvas desktop_page s =
     s\<lparr>canvas_width := 1200, canvas_height := 744, painted := [],
       lastCanvasSize := Some (SizeObject 1200 744)\<rparr>"
  by (simp add: setupCanvas_def desktop_page_def Let_def set_canvas_dim_def toUint32_def)

lemma onResize_desktop_page:
  "\<not> isFullscreen s \<Longrightarrow>
   onResize desktop_page s =
     s\<lparr>canvas_width := 1200, canvas_height := 744, painted := [],
       lastCanvasSize := Some (SizeObject 1200 744)\<rparr>"
  by (simp add: onResize_def handleResize_def Let_def setupCanvas_desktop_page)

lemma drawStarlight_fields:
  "canvas_width (drawStarlight rnd s) = canvas_width s"
  "canvas_height (drawStarlight rnd s) = canvas_height s"
  "frequencyData (drawStarlight rnd s) = frequencyData s"
  "boostedFrequencyData (drawStarlight rnd s) = boostedFrequencyData s"
  "smoothedFrequencyData (drawStarlight rnd s) = smoothedFrequencyData s"
  "isFullscreen (drawStarlight rnd s) = isFullscreen s"
  by (simp_all add: drawStarlight_def Let_def paint_ops_def)

lemma base_fields:
  "frequencyData (setupCanvas desktop_page one_bin) = [0]"
  "boostedFrequencyData (setupCanvas desktop_page one_bin) = None"
  "smoothedFrequencyData (setupCanvas desktop_page one_bin) = [0]"
  "starPositions (setupCanvas desktop_page one_bin) = None"
  "isFullscreen (setupCanvas desktop_page one_bin) = False"
  "canvas_width (setupCanvas desktop_page one_bin) = 1200"
  "canvas_height (setupCanvas desktop_page one_bin) = 744"
  by (simp_all add: setupCanvas_desktop_page one_bin_def fields_def)

lemma place_star_empty: "place_star rnd w h [] k attempts = (attempt rnd w h k, k + 3)"
  by (subst place_star.simps) simp

lemma one_star: "generate_stars rnd w h (Suc 0) 0 [] = [attempt rnd w h 0]"
  by (simp add: place_star_empty)

lemma mode_data_cong:
  "boostedFrequencyData s = boostedFrequencyData s' \<Longrightarrow>
   smoothedFrequencyData s = smoothedFrequencyData s' \<Longrightarrow>
   frequencyData s = frequencyData s' \<Longrightarrow> mode_data s = mode_data s'"
  by (simp only: mode_data_def)

lemma first_stars_fields:
  "frequencyData first_stars = [0]"
  "mode_data first_stars = [0]"
  "isFullscreen first_stars = False"
  "canvas_width first_stars = 1200"
  "canvas_height first_stars = 744"
  "starPositions first_stars = Some [\<lparr>star_x = 50, star_y = 50, star_size = 1\<rparr>]"
  "lastCanvasSize first_stars = Some (SizeString 1200 744)"
proof -
  let ?b = "setupCanvas desktop_page one_bin"
  have ne: "frequencyData ?b \<noteq> []" by (simp add: base_fields)
  have regen: "starPositions ?b = None
      \<or> strict_neq_string (lastCanvasSize ?b) (canvas_width ?b, canvas_height ?b)"
    by (simp add: base_fields)
  have md: "mode_data ?b = [0]" by (simp add: mode_data_def base_fields)
  show "frequencyData first_stars = [0]" "isFullscreen first_stars = False"
    "canvas_width first_stars = 1200" "canvas_height first_stars = 744"
    by (simp_all add: first_stars_def drawStarlight_fields base_fields)
  show "mode_data first_stars = [0]"
    by (simp add: mode_data_def first_stars_def drawStarlight_fields base_fields)
  show "starPositions first_stars = Some [\<lparr>star_x = 50, star_y = 50, star_size = 1\<rparr>]"
    unfolding first_stars_def drawStarlight_regenerates(1)[OF ne regen]
    by (simp add: md base_fields place_star_empty attempt_def)
  show "lastCanvasSize first_stars = Some (SizeString 1200 744)"
    unfolding first_stars_def drawStarlight_regenerates(2)[OF ne regen]
    by (simp add: base_fields)
qed

lemma setupCanvas_stores_object:
  "containerWidth env = Some rectWidth \<Longrightarrow>
   lastCanvasSize (setupCanvas env s)
     = Some (SizeObject (canvas_width (setupCanvas env s)) (canvas_height (setupCanvas env s)))"
  by (simp add: setupCanvas_def Let_def)

text \<open>
  After any window resize on a page with a container, the comparison of
  \<^verbatim>\<open>drawStarlight\<close> finds the stored size different from every current size.
\<close>

lemma resize_forces_regeneration:
  "containerWidth env = Some rectWidth \<Longrightarrow>
   strict_neq_string (lastCanvasSize (onResize env s)) current"
  using setupCanvas_stores_object[of env rectWidth s]
  by (simp add: onResize_def handleResize_def Let_def)

text \<open>
  Claim C8 at a failing input. After a first starfield frame on the canvas of 1200 by 744
  the single star is at (50, 50). A further starfield frame keeps it. A window resize on
  the same page leaves the canvas at 1200 by 744 and the stored star in place, but
  \<^verbatim>\<open>setupCanvas\<close> has replaced the stored size string by an object, so the next
  starfield frame finds \<^verbatim>\<open>lastCanvasSize !== currentCanvasSize\<close> and generates the star
  anew, here at (600, 372).
\<close>

theorem resize_same_size_regenerates_stars:
  "canvas_width first_stars = 1200 \<and> canvas_height first_stars = 744
   \<and> starPositions first_stars = Some [\<lparr>star_x = 50, star_y = 50, star_size = 1\<rparr>]
   \<and> starPositions (drawStarlight (\<lambda>k. 1 / 2) first_stars)
       = Some [\<lparr>star_x = 50, star_y = 50, star_size = 1\<rparr>]
   \<and> canvas_width (onResize desktop_page first_stars) = 1200
   \<and> canvas_height (onResize desktop_page first_stars) = 744
   \<and> starPositions (onResize desktop_page first_stars)
       = Some [\<lparr>star_x = 50, star_y = 50, star_size = 1\<rparr>]
   \<and> starPositions (drawStarlight (\<lambda>k. 1 / 2) (onResize desktop_page first_stars))
       = Some [\<lparr>star_x = 600, star_y = 372, star_size = 5 / 2\<rparr>]"
proof -
  let ?r = "onResize desktop_page first_stars"
  have r: "?r = first_stars\<lparr>canvas_width := 1200, canvas_height := 744, painted := [],
                            lastCanvasSize := Some (SizeObject 1200 744)\<rparr>"
    by (rule onResize_desktop_page) (simp add: first_stars_fields)
  have keep: "starPositions (drawStarlight (\<lambda>k. 1 / 2) first_stars)
       = Some [\<lparr>star_x = 50, star_y = 50, star_size = 1\<rparr>]"
    by (rule drawStarlight_keeps) (simp_all add: first_stars_fields)
  have ne: "frequencyData ?r \<noteq> []" by (simp add: r first_stars_fields)
  have regen: "starPositions ?r = None
      \<or> strict_neq_string (lastCanvasSize ?r) (canvas_width ?r, canvas_height ?r)"
    by (simp add: r)
  have md: "mode_data ?r = [0]"
    using first_stars_fields(2) mode_data_cong[of ?r first_stars] by (simp add: r)
  have again: "starPositions (drawStarlight (\<lambda>k. 1 / 2) ?r)
       = Some [\<lparr>star_x = 600, star_y = 372, star_size = 5 / 2\<rparr>]"
    unfolding drawStarlight_regenerates(1)[OF ne regen] md
    by (simp add: r place_star_empty attempt_def)
  show ?thesis
    using keep again by (simp add: first_stars_fields r)
qed

lemma stopVisualizer_state:
  "isPlaying (stopVisualizer s) = False"
  "animationId (stopVisualizer s) = None"
  "microphone (stopVisualizer s) = None"
  "screenShare (stopVisualizer s) = None"
  "audioContext (stopVisualizer s) = None"
  "analyser (stopVisualizer s) = None"
  "barRaindropTimers (stopVisualizer s) = Map.empty"
  "painted (stopVisualizer s) = []"
  "fullscreenMouseHandler (stopVisualizer s) = False"
  "gainNode (stopVisualizer s) = False"
  "lastRaindropTime (stopVisualizer s) = 0"
  "statusText (stopVisualizer s) = ''Visualizer stopped. Ready to start again.''"
  by (simp_all add: stopVisualizer_def stopScreenShare_def stopVisualization_def updateStatus_def
      Let_def split: option.split)

text \<open>
  The only tracks that \<^verbatim>\<open>stopVisualizer\<close> stops are those of \<^verbatim>\<open>this.microphone\<close>.
\<close>

lemma stopVisualizer_liveTracks:
  "liveTracks (stopVisualizer s)
     = (case microphone s of None \<Rightarrow> liveTracks s
        | Some source \<Rightarrow> liveTracks s - set (mediaStream source))"
  by (simp add: stopVisualizer_def stopScreenShare_def stopVisualization_def updateStatus_def
      Let_def split: option.split)

lemma stopVisualizer_openContexts:
  "openContexts (stopVisualizer s)
     = (case audioContext s of None \<Rightarrow> openContexts s
        | Some ctx \<Rightarrow> openContexts s - {ctx})"
  by (simp add: stopVisualizer_def stopScreenShare_def stopVisualization_def updateStatus_def
      Let_def split: option.split)


lemma constructor_desktop_page:
  "constructor desktop_page None None =
     fields\<lparr>canvas_width := 1200, canvas_height := 744, painted := [],
            lastCanvasSize := Some (SizeObject 1200 744)\<rparr>"
  by (simp add: constructor_def loadUserPreferences_def setupCanvas_desktop_page)

lemma sharing_fields:
  "isPlaying sharing" "microphone sharing = None"
  "screenShare sharing = Some \<lparr>mediaStream = [1, 2]\<rparr>"
  "audioContext sharing = Some 7" "liveTracks sharing = {1, 2}" "openContexts sharing = {7}"
  by (simp_all add: sharing_def startScreenShare_def constructor_desktop_page Let_def
      updateStatus_def startVisualization_def requestAnimationFrame_def fields_def insert_commute)

lemma listening_fields:
  "isPlaying listening" "microphone listening = Some \<lparr>mediaStream = [1]\<rparr>"
  "audioContext listening = Some 7" "liveTracks listening = {1}" "openContexts listening = {7}"
  by (simp_all add: listening_def startMicrophone_def constructor_desktop_page Let_def
      updateStatus_def startVisualization_def requestAnimationFrame_def fields_def)

text \<open>
  Claim C9 at a failing input. A desktop screen share is running with the tracks 1 and 2
  live and the audio context 7 open. \<^verbatim>\<open>stopVisualizer\<close> leaves the visualizer not
  playing, without a screen-share source, with the audio context closed and the raindrop
  store empty, but the tracks 1 and 2 are still live: \<^verbatim>\<open>stopScreenShare\<close> only
  disconnects the source node. After microphone capture the same call stops the track.
\<close>

theorem stop_leaves_shared_tracks_live:
  "isPlaying sharing \<and> liveTracks sharing = {1, 2} \<and> openContexts sharing = {7}
   \<and> isPlaying (stopVisualizer sharing) = False
   \<and> screenShare (stopVisualizer sharing) = None
   \<and> openContexts (stopVisualizer sharing) = {}
   \<and> raindrops (stopVisualizer sharing) = []
   \<and> liveTracks (stopVisualizer sharing) = {1, 2}
   \<and> liveTracks listening = {1}
   \<and> liveTracks (stopVisualizer listening) = {}"
  by (simp add: stopVisualizer_state raindrops_stopVisualizer stopVisualizer_liveTracks
      stopVisualizer_openContexts sharing_fields listening_fields)

text \<open>
  Stopping twice is the same as stopping once.
\<close>

lemma stopVisualizer_idempotent: "stopVisualizer (stopVisualizer s) = stopVisualizer s"
proof -
  let ?t = "stopVisualizer s"
  have "stopVisualizer ?t
        = ?t\<lparr>analyser := None, gainNode := False, isPlaying := False, raindrops := [],
              lastRaindropTime := 0, barRaindropTimers := Map.empty, painted := [],
              statusText := ''Visualizer stopped. Ready to start again.''\<rparr>"
    by (simp add: stopVisualizer_def[of ?t] stopScreenShare_def stopVisualization_def
        updateStatus_def Let_def stopVisualizer_state)
  also have "\<dots> = ?t"
    by (simp add: stopVisualizer_def stopScreenShare_def stopVisualization_def
        updateStatus_def Let_def split: option.split)
  finally show ?thesis .
qed

end
